theory Spec2Isabelle
  imports Complex_Main "HOL-Library.AList" "HOL-Library.List_Lexorder" "HOL-Library.Char_ord"
begin

section \<open>Values, rows and data frames\<close>

text \<open>
  A spreadsheet cell as it arrives from \<^verbatim>\<open>get_all_records()\<close>: a number, the float
  \<^verbatim>\<open>nan\<close> (also what pandas puts where a row has no value for a column), or a string.
  Numbers are exact reals: the rounding, overflow and infinities of binary64 are not
  part of this model.
\<close>

datatype cell = Num real | NaN | Str string

text \<open>
  The exceptions of the program, all subclasses of \<^verbatim>\<open>Exception\<close>. \<open>SourceError\<close> stands
  for whatever the spreadsheet client raises (authentication, network, a missing
  worksheet); its argument is the text of \<^verbatim>\<open>str(e)\<close>.
\<close>

datatype py_error =
    KeyError string
  | TypeError string
  | ValueError string
  | ZeroDivisionError
  | SourceError string

text \<open>A Python dict with string keys, in insertion order.\<close>

type_synonym row = "(string \<times> cell) list"

text \<open>
  A \<^verbatim>\<open>pandas.DataFrame\<close>: the column labels, and one record per index entry that has
  a cell for every column (what \<^verbatim>\<open>to_dict(orient="records")\<close> returns).
\<close>

record DataFrame =
  columns :: "string list"
  records :: "row list"

definition add_key :: "string list \<Rightarrow> string \<Rightarrow> string list" where
  "add_key cols k = (if k \<in> set cols then cols else cols @ [k])"

definition column_union :: "row list \<Rightarrow> string list" where
  "column_union rs = fold (\<lambda>k cols. add_key cols k) (concat (map (map fst) rs)) []"

definition get_cell :: "row \<Rightarrow> string \<Rightarrow> cell" where
  "get_cell r k = (case map_of r k of Some v \<Rightarrow> v | None \<Rightarrow> NaN)"

text \<open>
  \<^verbatim>\<open>pd.DataFrame(rows)\<close> for a list of dicts: the columns are the keys in order of first
  appearance, and a row without a key gets \<^verbatim>\<open>nan\<close> in that column.
\<close>

definition pd_DataFrame :: "row list \<Rightarrow> DataFrame" where
  "pd_DataFrame rs =
     (let cols = column_union rs
      in \<lparr>columns = cols, records = map (\<lambda>r. map (\<lambda>k. (k, get_cell r k)) cols) rs\<rparr>)"

text \<open>\<^verbatim>\<open>df.empty\<close>: an axis of length 0.\<close>

definition empty :: "DataFrame \<Rightarrow> bool" where
  "empty df = (records df = [] \<or> columns df = [])"

text \<open>\<^verbatim>\<open>df[col]\<close> as a read: the values of a column, \<^verbatim>\<open>KeyError\<close> when there is none.\<close>

definition column_values :: "DataFrame \<Rightarrow> string \<Rightarrow> cell list" where
  "column_values df col = map (\<lambda>r. get_cell r col) (records df)"

definition get_column :: "DataFrame \<Rightarrow> string \<Rightarrow> py_error + cell list" where
  "get_column df col =
     (if col \<in> set (columns df) then Inr (column_values df col) else Inl (KeyError col))"

text \<open>
  \<^verbatim>\<open>df[col] = series\<close>: the column is replaced where it stands, or added last. The
  series always comes from a column of the same frame, so the lengths agree.
\<close>

definition set_column :: "DataFrame \<Rightarrow> string \<Rightarrow> cell list \<Rightarrow> DataFrame" where
  "set_column df col vs =
     \<lparr>columns = add_key (columns df) col,
      records = map (\<lambda>(r, v). AList.update col v r) (zip (records df) vs)\<rparr>"

section \<open>Record normalizer: \<^verbatim>\<open>sheet_to_dataframe\<close>\<close>

text \<open>
  \<^verbatim>\<open>pd.to_numeric(..., errors="coerce")\<close> on one cell. How pandas reads a string as a
  number is a parameter \<open>parse\<close>; \<open>None\<close> is a string it does not accept.
\<close>

fun to_numeric :: "(string \<Rightarrow> real option) \<Rightarrow> cell \<Rightarrow> cell" where
  "to_numeric parse (Num x) = Num x"
| "to_numeric parse NaN = NaN"
| "to_numeric parse (Str s) = (case parse s of Some x \<Rightarrow> Num x | None \<Rightarrow> NaN)"

fun fillna :: "real \<Rightarrow> cell \<Rightarrow> cell" where
  "fillna d NaN = Num d"
| "fillna d c = c"

text \<open>One turn of the loop over \<^verbatim>\<open>["qty", "avg_price"]\<close>, with its guard.\<close>

definition coerce_column :: "(string \<Rightarrow> real option) \<Rightarrow> string \<Rightarrow> DataFrame \<Rightarrow> DataFrame" where
  "coerce_column parse col df =
     (if col \<in> set (columns df)
      then set_column df col (map (fillna 0 \<circ> to_numeric parse) (column_values df col))
      else df)"

text \<open>Lines 57 to 65 of \<^verbatim>\<open>sheet_to_dataframe\<close>: from the fetched rows to the frame.\<close>

definition normalize_rows :: "(string \<Rightarrow> real option) \<Rightarrow> row list \<Rightarrow> DataFrame" where
  "normalize_rows parse rs =
     (let df = pd_DataFrame rs
      in if empty df then df else fold (coerce_column parse) [''qty'', ''avg_price''] df)"

text \<open>
  The spreadsheet as the program sees it. A worksheet is the outcome of its
  \<^verbatim>\<open>get_all_records()\<close>; a spreadsheet answers \<^verbatim>\<open>worksheet(name)\<close> and \<^verbatim>\<open>sheet1\<close>.
\<close>

type_synonym worksheet = "py_error + row list"

record spreadsheet =
  worksheet :: "string \<Rightarrow> py_error + worksheet"
  sheet1 :: "py_error + worksheet"

definition EXPECTED_SHEET_NAME :: string where
  "EXPECTED_SHEET_NAME = ''portfolio''"

text \<open>
  What the program does to the world, in the order it does it: the calls to the sheet
  client, the replies sent to the chat, the log records and the waits of the refresh loop.
\<close>

datatype event =
    Connect
  | Worksheet string
  | Sheet1
  | GetAllRecords
  | Answer string
  | LogException string py_error
  | LogInfo string
  | Sleep nat

text \<open>
  \<^verbatim>\<open>sheet_to_dataframe(sh)\<close>: the calls it makes, and the frame or the exception. An
  exception of \<^verbatim>\<open>sh.worksheet\<close> is caught and \<^verbatim>\<open>sh.sheet1\<close> is taken instead; any other
  exception of the client propagates.
\<close>

definition sheet_to_dataframe ::
  "(string \<Rightarrow> real option) \<Rightarrow> spreadsheet \<Rightarrow> event list \<times> (py_error + DataFrame)" where
  "sheet_to_dataframe parse sh =
     (case (case worksheet sh EXPECTED_SHEET_NAME of
              Inr ws \<Rightarrow> ([Worksheet EXPECTED_SHEET_NAME], Inr ws)
            | Inl e \<Rightarrow> ([Worksheet EXPECTED_SHEET_NAME, Sheet1], sheet1 sh)) of
        (calls, Inl e) \<Rightarrow> (calls, Inl e)
      | (calls, Inr ws) \<Rightarrow>
          (calls @ [GetAllRecords],
           case ws of
             Inl e \<Rightarrow> Inl e
           | Inr rs \<Rightarrow> Inr (normalize_rows parse rs)))"

text \<open>A cell that is absent from its row, \<^verbatim>\<open>nan\<close>, or a string that is not a number.\<close>

definition non_numeric :: "(string \<Rightarrow> real option) \<Rightarrow> row \<Rightarrow> string \<Rightarrow> bool" where
  "non_numeric parse r col =
     (case map_of r col of
        None \<Rightarrow> True
      | Some (Num x) \<Rightarrow> False
      | Some NaN \<Rightarrow> True
      | Some (Str s) \<Rightarrow> parse s = None)"

section \<open>Aggregation engine: \<^verbatim>\<open>analyze_portfolio\<close>\<close>

text \<open>
  The dict that \<^verbatim>\<open>analyze_portfolio\<close> returns. The two percentage maps are optional
  fields: \<open>None\<close> is a dict without the key \<^verbatim>\<open>"by_account_pct"\<close> (\<^verbatim>\<open>"by_type_pct"\<close>).
  A group map is a dict from the group key to a number, in the order of its keys.
\<close>

record summary =
  total :: real
  by_account :: "(cell \<times> real) list"
  by_account_pct :: "(cell \<times> real) list option"
  by_type :: "(cell \<times> real) list"
  by_type_pct :: "(cell \<times> real) list option"
  rows :: "row list"

text \<open>
  One product of \<^verbatim>\<open>df["qty"].fillna(0) * df["avg_price"].fillna(0)\<close>. After
  \<^verbatim>\<open>fillna(0)\<close> a cell is a number or a string, and a string has no product with a
  float.
\<close>

definition position_value :: "cell \<Rightarrow> cell \<Rightarrow> py_error + real" where
  "position_value q p =
     (case (fillna 0 q, fillna 0 p) of
        (Num a, Num b) \<Rightarrow> Inr (a * b)
      | _ \<Rightarrow> Inl (TypeError ''unsupported operand type(s) for *''))"

text \<open>A list of results is the list of values, or the first error.\<close>

fun collect :: "('e + 'a) list \<Rightarrow> 'e + 'a list" where
  "collect [] = Inr []"
| "collect (Inl e # xs) = Inl e"
| "collect (Inr x # xs) = (case collect xs of Inl e \<Rightarrow> Inl e | Inr ys \<Rightarrow> Inr (x # ys))"

text \<open>The right-hand side of line 77: both columns are read first, \<^verbatim>\<open>qty\<close> before \<^verbatim>\<open>avg_price\<close>.\<close>

definition position_values :: "DataFrame \<Rightarrow> py_error + real list" where
  "position_values df =
     (case get_column df ''qty'' of
        Inl e \<Rightarrow> Inl e
      | Inr qs \<Rightarrow>
          (case get_column df ''avg_price'' of
             Inl e \<Rightarrow> Inl e
           | Inr ps \<Rightarrow> collect (map (\<lambda>(q, p). position_value q p) (zip qs ps))))"

text \<open>
  A cell of the \<^verbatim>\<open>value\<close> column as a summand. The column holds numbers; \<^verbatim>\<open>sum()\<close> skips
  \<^verbatim>\<open>nan\<close>.
\<close>

fun value_of :: "cell \<Rightarrow> real" where
  "value_of (Num x) = x"
| "value_of c = 0"

text \<open>The order of group keys in a sorted \<^verbatim>\<open>groupby\<close>: numbers, then strings.\<close>

fun cell_less :: "cell \<Rightarrow> cell \<Rightarrow> bool" where
  "cell_less (Num a) (Num b) = (a < b)"
| "cell_less (Num a) (Str t) = True"
| "cell_less (Str s) (Str t) = (s < t)"
| "cell_less c d = False"

fun insert_group :: "cell \<Rightarrow> real \<Rightarrow> (cell \<times> real) list \<Rightarrow> (cell \<times> real) list" where
  "insert_group k v [] = [(k, v)]"
| "insert_group k v ((k', v') # g) =
     (if k = k' then (k', v' + v) # g
      else if cell_less k k' then (k, v) # (k', v') # g
      else (k', v') # insert_group k v g)"

text \<open>
  One record entering \<^verbatim>\<open>df.groupby(key)["value"].sum()\<close>. The default \<^verbatim>\<open>dropna=True\<close>
  leaves a record whose key is \<^verbatim>\<open>nan\<close> out of every group.
\<close>

definition group_step :: "string \<Rightarrow> row \<Rightarrow> (cell \<times> real) list \<Rightarrow> (cell \<times> real) list" where
  "group_step key r g =
     (case get_cell r key of
        NaN \<Rightarrow> g
      | k \<Rightarrow> insert_group k (value_of (get_cell r ''value'')) g)"

definition groupby_sum :: "DataFrame \<Rightarrow> string \<Rightarrow> py_error + (cell \<times> real) list" where
  "groupby_sum df key =
     (if key \<in> set (columns df) then Inr (fold (group_step key) (records df) [])
      else Inl (KeyError key))"

text \<open>Python's \<^verbatim>\<open>/\<close> on floats.\<close>

definition py_div :: "real \<Rightarrow> real \<Rightarrow> py_error + real" where
  "py_div a b = (if b = 0 then Inl ZeroDivisionError else Inr (a / b))"

text \<open>\<^verbatim>\<open>float(v)/total*100 if total else 0\<close>.\<close>

definition pct :: "real \<Rightarrow> real \<Rightarrow> py_error + real" where
  "pct tot v =
     (if tot \<noteq> 0
      then (case py_div v tot of Inl e \<Rightarrow> Inl e | Inr q \<Rightarrow> Inr (q * 100))
      else Inr 0)"

definition pct_map :: "real \<Rightarrow> (cell \<times> real) list \<Rightarrow> py_error + (cell \<times> real) list" where
  "pct_map tot g =
     collect (map (\<lambda>(k, v). case pct tot v of Inl e \<Rightarrow> Inl e | Inr p \<Rightarrow> Inr (k, p)) g)"

text \<open>Lines 78 to 97, on the frame that already has its \<^verbatim>\<open>value\<close> column.\<close>

definition summarize :: "DataFrame \<Rightarrow> py_error + summary" where
  "summarize df =
     (let tot = sum_list (map value_of (column_values df ''value''))
      in case groupby_sum df ''account'' of
           Inl e \<Rightarrow> Inl e
         | Inr acc \<Rightarrow>
             (case groupby_sum df ''type'' of
                Inl e \<Rightarrow> Inl e
              | Inr typ \<Rightarrow>
                  (case pct_map tot acc of
                     Inl e \<Rightarrow> Inl e
                   | Inr acc_pct \<Rightarrow>
                       (case pct_map tot typ of
                          Inl e \<Rightarrow> Inl e
                        | Inr typ_pct \<Rightarrow>
                            Inr \<lparr>total = tot, by_account = acc, by_account_pct = Some acc_pct,
                                 by_type = typ, by_type_pct = Some typ_pct,
                                 rows = records df\<rparr>))))"

text \<open>
  \<^verbatim>\<open>analyze_portfolio(df)\<close>. The frame is passed by reference and line 77 assigns a
  column to it, so the function returns its result (or the exception it raises) together
  with the frame as the caller finds it afterwards.
\<close>

definition analyze_portfolio :: "DataFrame \<Rightarrow> (py_error + summary) \<times> DataFrame" where
  "analyze_portfolio df =
     (if empty df
      then (Inr \<lparr>total = 0, by_account = [], by_account_pct = None,
                 by_type = [], by_type_pct = None, rows = []\<rparr>, df)
      else (case position_values df of
              Inl e \<Rightarrow> (Inl e, df)
            | Inr vs \<Rightarrow>
                (let df' = set_column df ''value'' (map Num vs)
                 in (summarize df', df'))))"

text \<open>
  The entries of a percentage map of a summary: none where the summary has no such map.
\<close>

definition pct_values :: "(cell \<times> real) list option \<Rightarrow> real list" where
  "pct_values m = (case m of None \<Rightarrow> [] | Some g \<Rightarrow> map snd g)"

section \<open>Number formatting\<close>

text \<open>
  A Python float as the handlers compute with it: \<open>None\<close> is \<^verbatim>\<open>nan\<close>.
\<close>

type_synonym pyfloat = "real option"

definition fmul :: "pyfloat \<Rightarrow> pyfloat \<Rightarrow> pyfloat" where
  "fmul a b = (case (a, b) of (Some x, Some y) \<Rightarrow> Some (x * y) | _ \<Rightarrow> None)"

definition fadd :: "pyfloat \<Rightarrow> pyfloat \<Rightarrow> pyfloat" where
  "fadd a b = (case (a, b) of (Some x, Some y) \<Rightarrow> Some (x + y) | _ \<Rightarrow> None)"

text \<open>\<^verbatim>\<open>float(c)\<close> for a cell; a string goes through the reader of strings.\<close>

fun py_float :: "(string \<Rightarrow> real option) \<Rightarrow> cell \<Rightarrow> py_error + pyfloat" where
  "py_float parse (Num x) = Inr (Some x)"
| "py_float parse NaN = Inr None"
| "py_float parse (Str s) =
     (case parse s of
        Some x \<Rightarrow> Inr (Some x)
      | None \<Rightarrow> Inl (ValueError (''could not convert string to float: '' @ s)))"

text \<open>The decimal digits of a natural number.\<close>

definition digit_char :: "nat \<Rightarrow> char" where
  "digit_char d = ''0123456789'' ! d"

fun digits :: "nat \<Rightarrow> string" where
  "digits n =
     (if n < 10 then [digit_char n]
      else digits (n div 10) @ [digit_char (n mod 10)])"

declare digits.simps [simp del]

text \<open>The thousands separator of the format option \<^verbatim>\<open>,\<close>: a comma before every third digit from the right.\<close>

fun group3 :: "string \<Rightarrow> string" where
  "group3 ds =
     (if length ds \<le> 3 then ds
      else group3 (take (length ds - 3) ds) @ '','' @ drop (length ds - 3) ds)"

declare group3.simps [simp del]

text \<open>Rounding to the nearest integer, a tie to the even one.\<close>

definition round_half_even :: "real \<Rightarrow> int" where
  "round_half_even y =
     (let f = \<lfloor>y\<rfloor>; d = y - of_int f
      in if d < 1 / 2 then f
         else if 1 / 2 < d then f + 1
         else if even f then f else f + 1)"

text \<open>
  The format specifications \<^verbatim>\<open>.2f\<close>, \<^verbatim>\<open>,.2f\<close> and \<^verbatim>\<open>.1f\<close> of the replies: \<open>fmt_f sep prec x\<close> is
  \<open>x\<close> in fixed point with \<open>prec\<close> digits after the point, with the thousands separator
  when \<open>sep\<close> holds.
\<close>

definition fmt_f :: "bool \<Rightarrow> nat \<Rightarrow> pyfloat \<Rightarrow> string" where
  "fmt_f sep prec x =
     (case x of
        None \<Rightarrow> ''nan''
      | Some v \<Rightarrow>
          (let n = nat (round_half_even (\<bar>v\<bar> * 10 ^ prec));
               ip = digits (n div 10 ^ prec);
               fp = digits (n mod 10 ^ prec)
           in (if v < 0 then ''-'' else '''') @
              (if sep then group3 ip else ip) @
              (if prec = 0 then ''''
               else ''.'' @ replicate (prec - length fp) (CHR ''0'') @ fp)))"

text \<open>
  \<^verbatim>\<open>str(c)\<close> as an f-string prints a cell. How Python prints a number depends on the type
  it has (an int, a float), which the model does not keep: it is a parameter \<open>show\<close>.
\<close>

fun str_cell :: "(real \<Rightarrow> string) \<Rightarrow> cell \<Rightarrow> string" where
  "str_cell show (Num x) = show x"
| "str_cell show NaN = ''nan''"
| "str_cell show (Str s) = s"

text \<open>\<^verbatim>\<open>str(e)\<close> for an exception.\<close>

fun str_error :: "py_error \<Rightarrow> string" where
  "str_error (KeyError k) = [CHR 0x27] @ k @ [CHR 0x27]"
| "str_error (TypeError m) = m"
| "str_error (ValueError m) = m"
| "str_error ZeroDivisionError = ''float division by zero''"
| "str_error (SourceError m) = m"

text \<open>\<^verbatim>\<open>"\n".join(lines)\<close>.\<close>

fun join_lines :: "string list \<Rightarrow> string" where
  "join_lines [] = ''''"
| "join_lines [l] = l"
| "join_lines (l # ls) = l @ [CHR 0x0A] @ join_lines ls"

section \<open>The texts of the replies\<close>

text \<open>The literals of the program, as UTF-8.\<close>

definition msg_access_error :: string where
  "msg_access_error = [CHR 0xD0, CHR 0x9E, CHR 0xD1, CHR 0x88, CHR 0xD0, CHR 0xB8, CHR 0xD0,
     CHR 0xB1, CHR 0xD0, CHR 0xBA, CHR 0xD0, CHR 0xB0] @ '' '' @ [CHR 0xD0, CHR 0xB4,
     CHR 0xD0, CHR 0xBE, CHR 0xD1, CHR 0x81, CHR 0xD1, CHR 0x82, CHR 0xD1, CHR 0x83,
     CHR 0xD0, CHR 0xBF, CHR 0xD0, CHR 0xB0] @ '' '' @ [CHR 0xD0,
     CHR 0xBA] @ '' Google Sheets: ''"

definition msg_read_error :: string where
  "msg_read_error = [CHR 0xD0, CHR 0x9E, CHR 0xD1, CHR 0x88, CHR 0xD0, CHR 0xB8, CHR 0xD0,
     CHR 0xB1, CHR 0xD0, CHR 0xBA, CHR 0xD0, CHR 0xB0] @ '' '' @ [CHR 0xD1, CHR 0x87,
     CHR 0xD1, CHR 0x82, CHR 0xD0, CHR 0xB5, CHR 0xD0, CHR 0xBD, CHR 0xD0, CHR 0xB8,
     CHR 0xD1, CHR 0x8F] @ '' Google Sheets''"

definition msg_portfolio_empty :: string where
  "msg_portfolio_empty = [CHR 0xD0, CHR 0x9F, CHR 0xD0, CHR 0xBE, CHR 0xD1, CHR 0x80,
     CHR 0xD1, CHR 0x82, CHR 0xD1, CHR 0x84, CHR 0xD0, CHR 0xB5, CHR 0xD0, CHR 0xBB,
     CHR 0xD1, CHR 0x8C] @ '' '' @ [CHR 0xD0, CHR 0xBF, CHR 0xD1, CHR 0x83, CHR 0xD1,
     CHR 0x81, CHR 0xD1, CHR 0x82] @ '' '' @ [CHR 0xD0, CHR 0xB8, CHR 0xD0, CHR 0xBB,
     CHR 0xD0, CHR 0xB8] @ '' '' @ [CHR 0xD0, CHR 0xBD, CHR 0xD0, CHR 0xB5, CHR 0xD0,
     CHR 0xB2, CHR 0xD0, CHR 0xB5, CHR 0xD1, CHR 0x80, CHR 0xD0, CHR 0xBD, CHR 0xD0,
     CHR 0xB0, CHR 0xD1, CHR 0x8F] @ '' '' @ [CHR 0xD1, CHR 0x81, CHR 0xD1, CHR 0x82,
     CHR 0xD1, CHR 0x80, CHR 0xD1, CHR 0x83, CHR 0xD0, CHR 0xBA, CHR 0xD1, CHR 0x82,
     CHR 0xD1, CHR 0x83, CHR 0xD1, CHR 0x80, CHR 0xD0, CHR 0xB0] @ '' '' @ [CHR 0xD0,
     CHR 0xBB, CHR 0xD0, CHR 0xB8, CHR 0xD1, CHR 0x81, CHR 0xD1, CHR 0x82, CHR 0xD0,
     CHR 0xB0] @ ''.''"

definition msg_portfolio_header :: string where
  "msg_portfolio_header = [CHR 0xF0, CHR 0x9F, CHR 0x93, CHR 0x8A] @ '' *'' @ [CHR 0xD0,
     CHR 0xA2, CHR 0xD0, CHR 0xB2, CHR 0xD0, CHR 0xBE, CHR 0xD0,
     CHR 0xB9] @ '' '' @ [CHR 0xD0, CHR 0xBF, CHR 0xD0, CHR 0xBE, CHR 0xD1, CHR 0x80,
     CHR 0xD1, CHR 0x82, CHR 0xD1, CHR 0x84, CHR 0xD0, CHR 0xB5, CHR 0xD0, CHR 0xBB,
     CHR 0xD1, CHR 0x8C] @ ''*:'' @ [CHR 0x0A]"

definition txt_qty :: string where
  "txt_qty = '' '' @ [CHR 0xE2, CHR 0x80, CHR 0x94] @ '' qty: ''"

definition txt_price :: string where
  "txt_price = '', price: ''"

definition txt_value :: string where
  "txt_value = '' '' @ [CHR 0xE2, CHR 0x82, CHR 0xBD] @ '', value: ''"

definition txt_rub :: string where
  "txt_rub = '' '' @ [CHR 0xE2, CHR 0x82, CHR 0xBD]"

definition msg_portfolio_total :: string where
  "msg_portfolio_total = [CHR 0x0A, CHR 0xF0, CHR 0x9F, CHR 0x92,
     CHR 0xB5] @ '' *'' @ [CHR 0xD0, CHR 0x98, CHR 0xD1, CHR 0x82, CHR 0xD0, CHR 0xBE,
     CHR 0xD0, CHR 0xB3, CHR 0xD0, CHR 0xBE] @ '':* ''"

definition msg_analysis_zero :: string where
  "msg_analysis_zero = [CHR 0xD0, CHR 0x9F, CHR 0xD0, CHR 0xBE, CHR 0xD1, CHR 0x80,
     CHR 0xD1, CHR 0x82, CHR 0xD1, CHR 0x84, CHR 0xD0, CHR 0xB5, CHR 0xD0, CHR 0xBB,
     CHR 0xD1, CHR 0x8C] @ '' '' @ [CHR 0xD0, CHR 0xBF, CHR 0xD1, CHR 0x83, CHR 0xD1,
     CHR 0x81, CHR 0xD1, CHR 0x82] @ '' '' @ [CHR 0xD0, CHR 0xB8, CHR 0xD0, CHR 0xBB,
     CHR 0xD0, CHR 0xB8] @ '' '' @ [CHR 0xD0, CHR 0xBD, CHR 0xD1, CHR 0x83, CHR 0xD0,
     CHR 0xBB, CHR 0xD0, CHR 0xB5, CHR 0xD0, CHR 0xB2, CHR 0xD0, CHR 0xBE, CHR 0xD0,
     CHR 0xB9] @ ''.''"

definition msg_analysis_header :: string where
  "msg_analysis_header = [CHR 0xF0, CHR 0x9F, CHR 0x93, CHR 0x88] @ '' *'' @ [CHR 0xD0,
     CHR 0x90, CHR 0xD0, CHR 0xBD, CHR 0xD0, CHR 0xB0, CHR 0xD0, CHR 0xBB, CHR 0xD0,
     CHR 0xB8, CHR 0xD0, CHR 0xB7] @ '' '' @ [CHR 0xD0, CHR 0xBF, CHR 0xD0, CHR 0xBE,
     CHR 0xD1, CHR 0x80, CHR 0xD1, CHR 0x82, CHR 0xD1, CHR 0x84, CHR 0xD0, CHR 0xB5,
     CHR 0xD0, CHR 0xBB, CHR 0xD1, CHR 0x8F] @ ''* '' @ [CHR 0xE2, CHR 0x80,
     CHR 0x94] @ '' '' @ [CHR 0xD0, CHR 0x98, CHR 0xD1, CHR 0x82, CHR 0xD0, CHR 0xBE,
     CHR 0xD0, CHR 0xB3, CHR 0xD0, CHR 0xBE] @ '': ''"

definition txt_rub_nl :: string where
  "txt_rub_nl = '' '' @ [CHR 0xE2, CHR 0x82, CHR 0xBD, CHR 0x0A]"

definition msg_by_account :: string where
  "msg_by_account = [CHR 0xE2, CHR 0x80, CHR 0x94] @ '' '' @ [CHR 0xD0, CHR 0x9F, CHR 0xD0,
     CHR 0xBE] @ '' '' @ [CHR 0xD1, CHR 0x81, CHR 0xD1, CHR 0x87, CHR 0xD0, CHR 0xB5,
     CHR 0xD1, CHR 0x82, CHR 0xD0, CHR 0xB0, CHR 0xD0, CHR 0xBC] @ '':''"

definition msg_by_type :: string where
  "msg_by_type = [CHR 0x0A, CHR 0xE2, CHR 0x80, CHR 0x94] @ '' '' @ [CHR 0xD0, CHR 0x9F,
     CHR 0xD0, CHR 0xBE] @ '' '' @ [CHR 0xD1, CHR 0x82, CHR 0xD0, CHR 0xB8, CHR 0xD0,
     CHR 0xBF, CHR 0xD0, CHR 0xB0, CHR 0xD0, CHR 0xBC] @ '':''"

definition txt_rub_open :: string where
  "txt_rub_open = '' '' @ [CHR 0xE2, CHR 0x82, CHR 0xBD] @ '' (''"

definition txt_pct_close :: string where
  "txt_pct_close = ''%)''"

definition msg_rows_empty :: string where
  "msg_rows_empty = [CHR 0xD0, CHR 0x9F, CHR 0xD1, CHR 0x83, CHR 0xD1, CHR 0x81, CHR 0xD1,
     CHR 0x82, CHR 0xD0, CHR 0xBE]"

definition msg_rows_header :: string where
  "msg_rows_header = [CHR 0xD0, CHR 0x9F, CHR 0xD0, CHR 0xB5, CHR 0xD1, CHR 0x80, CHR 0xD0,
     CHR 0xB2, CHR 0xD1, CHR 0x8B, CHR 0xD0, CHR 0xB5] @ '' '' @ [CHR 0xD1, CHR 0x81,
     CHR 0xD1, CHR 0x82, CHR 0xD1, CHR 0x80, CHR 0xD0, CHR 0xBE, CHR 0xD0, CHR 0xBA,
     CHR 0xD0, CHR 0xB8] @ '':'' @ [CHR 0x0A]"

definition txt_dash :: string where
  "txt_dash = '' '' @ [CHR 0xE2, CHR 0x80, CHR 0x94] @ '' ''"

definition txt_times :: string where
  "txt_times = '' '' @ [CHR 0xC3, CHR 0x97] @ '' ''"

definition msg_periodic_error :: string where
  "msg_periodic_error = ''Periodic task error''"

definition msg_periodic_total :: string where
  "msg_periodic_total = ''Periodic update '' @ [CHR 0xE2, CHR 0x80, CHR 0x94] @ '' total: ''"

section \<open>Query handlers\<close>

text \<open>
  What a handler leaves behind: the events in order, and the exception that leaves the
  handler, if one does. Sending a reply is taken to succeed.
\<close>

type_synonym outcome = "event list \<times> py_error option"

text \<open>
  The guarded block of every handler and of the refresh loop:
  \<^verbatim>\<open>sh = connect_gsheet(); df = sheet_to_dataframe(sh)\<close>. What \<^verbatim>\<open>connect_gsheet()\<close> returns
  or raises in this invocation is the argument \<open>conn\<close>.
\<close>

definition fetch ::
  "(string \<Rightarrow> real option) \<Rightarrow> py_error + spreadsheet \<Rightarrow> event list \<times> (py_error + DataFrame)" where
  "fetch parse conn =
     (case conn of
        Inl e \<Rightarrow> ([Connect], Inl e)
      | Inr sh \<Rightarrow> (case sheet_to_dataframe parse sh of (calls, r) \<Rightarrow> (Connect # calls, r)))"

text \<open>\<^verbatim>\<open>row.get(key, default)\<close>.\<close>

definition row_get :: "row \<Rightarrow> string \<Rightarrow> cell \<Rightarrow> cell" where
  "row_get r k d = (case map_of r k of Some v \<Rightarrow> v | None \<Rightarrow> d)"

text \<open>\<^verbatim>\<open>float(qty) * float(avg)\<close> for one record.\<close>

definition record_value :: "(string \<Rightarrow> real option) \<Rightarrow> row \<Rightarrow> py_error + pyfloat" where
  "record_value parse r =
     (case py_float parse (row_get r ''qty'' (Num 0)) of
        Inl e \<Rightarrow> Inl e
      | Inr q \<Rightarrow>
          (case py_float parse (row_get r ''avg_price'' (Num 0)) of
             Inl e \<Rightarrow> Inl e
           | Inr a \<Rightarrow> Inr (fmul q a)))"

text \<open>
  The loop of \<^verbatim>\<open>cmd_portfolio\<close> over the records: the lines so far and the running total.
\<close>

fun portfolio_loop ::
  "(string \<Rightarrow> real option) \<Rightarrow> (real \<Rightarrow> string) \<Rightarrow> row list \<Rightarrow> string list \<times> pyfloat \<Rightarrow>
   py_error + string list \<times> pyfloat" where
  "portfolio_loop parse show [] acc = Inr acc"
| "portfolio_loop parse show (r # rs) (text_lines, tot) =
     (case record_value parse r of
        Inl e \<Rightarrow> Inl e
      | Inr v \<Rightarrow>
          portfolio_loop parse show rs
            (text_lines @
               [str_cell show (row_get r ''symbol'' (Str '''')) @ txt_qty @
                str_cell show (row_get r ''qty'' (Num 0)) @ txt_price @
                str_cell show (row_get r ''avg_price'' (Num 0)) @ txt_value @
                fmt_f True 2 v @ txt_rub],
             fadd tot v))"

definition cmd_portfolio ::
  "(string \<Rightarrow> real option) \<Rightarrow> (real \<Rightarrow> string) \<Rightarrow> py_error + spreadsheet \<Rightarrow> outcome" where
  "cmd_portfolio parse show conn =
     (case fetch parse conn of
        (calls, Inl e) \<Rightarrow>
          (calls @ [LogException msg_read_error e, Answer (msg_access_error @ str_error e)], None)
      | (calls, Inr df) \<Rightarrow>
          (if empty df then (calls @ [Answer msg_portfolio_empty], None)
           else (case portfolio_loop parse show (records df) ([msg_portfolio_header], Some 0) of
                   Inl e \<Rightarrow> (calls, Some e)
                 | Inr (text_lines, tot) \<Rightarrow>
                     (calls @
                        [Answer (join_lines
                           (text_lines @ [msg_portfolio_total @ fmt_f False 2 tot @ txt_rub]))],
                      None))))"

text \<open>
  One line of a group of \<^verbatim>\<open>cmd_analysis\<close>; \<^verbatim>\<open>.get(key, 0)\<close> reads the percentage.
\<close>

definition group_line :: "(real \<Rightarrow> string) \<Rightarrow> (cell \<times> real) list \<Rightarrow> cell \<times> real \<Rightarrow> string" where
  "group_line show pcts kv =
     (case kv of
        (k, val) \<Rightarrow>
          str_cell show k @ '': '' @ fmt_f True 2 (Some val) @ txt_rub_open @
          fmt_f False 1 (Some (case map_of pcts k of Some p \<Rightarrow> p | None \<Rightarrow> 0)) @ txt_pct_close)"

text \<open>\<^verbatim>\<open>analysis["by_account_pct"]\<close>: a \<^verbatim>\<open>KeyError\<close> on a dict without the key.\<close>

definition get_pct :: "string \<Rightarrow> (cell \<times> real) list option \<Rightarrow> py_error + (cell \<times> real) list" where
  "get_pct key m = (case m of None \<Rightarrow> Inl (KeyError key) | Some g \<Rightarrow> Inr g)"

text \<open>
  One of the two loops of \<^verbatim>\<open>cmd_analysis\<close>; the percentage map is read in the loop body,
  so not at all when there is no group.
\<close>

definition group_lines ::
  "(real \<Rightarrow> string) \<Rightarrow> string \<Rightarrow> (cell \<times> real) list option \<Rightarrow> (cell \<times> real) list \<Rightarrow>
   py_error + string list" where
  "group_lines show key m g =
     (if g = [] then Inr []
      else (case get_pct key m of
              Inl e \<Rightarrow> Inl e
            | Inr pcts \<Rightarrow> Inr (map (group_line show pcts) g)))"

definition cmd_analysis ::
  "(string \<Rightarrow> real option) \<Rightarrow> (real \<Rightarrow> string) \<Rightarrow> py_error + spreadsheet \<Rightarrow> outcome" where
  "cmd_analysis parse show conn =
     (case fetch parse conn of
        (calls, Inl e) \<Rightarrow> (calls @ [Answer (msg_access_error @ str_error e)], None)
      | (calls, Inr df) \<Rightarrow>
          (case fst (analyze_portfolio df) of
             Inl e \<Rightarrow> (calls, Some e)
           | Inr s \<Rightarrow>
               (if total s = 0 then (calls @ [Answer msg_analysis_zero], None)
                else (case group_lines show ''by_account_pct'' (by_account_pct s) (by_account s) of
                        Inl e \<Rightarrow> (calls, Some e)
                      | Inr acc_lines \<Rightarrow>
                          (case group_lines show ''by_type_pct'' (by_type_pct s) (by_type s) of
                             Inl e \<Rightarrow> (calls, Some e)
                           | Inr type_lines \<Rightarrow>
                               (calls @
                                  [Answer (join_lines
                                     ([msg_analysis_header @ fmt_f True 2 (Some (total s)) @
                                         txt_rub_nl,
                                       msg_by_account] @ acc_lines @
                                      [msg_by_type] @ type_lines))],
                                None))))))"

text \<open>The loop of \<^verbatim>\<open>cmd_rows\<close> over the first ten records, counted from 1.\<close>

fun rows_loop ::
  "(string \<Rightarrow> real option) \<Rightarrow> (real \<Rightarrow> string) \<Rightarrow> nat \<Rightarrow> row list \<Rightarrow> string \<Rightarrow> py_error + string" where
  "rows_loop parse show i [] text = Inr text"
| "rows_loop parse show i (r # rs) text =
     (case record_value parse r of
        Inl e \<Rightarrow> Inl e
      | Inr v \<Rightarrow>
          rows_loop parse show (Suc i) rs
            (text @ digits i @ ''. '' @
             str_cell show (row_get r ''symbol'' (Str '''')) @ txt_dash @
             str_cell show (row_get r ''qty'' (Num 0)) @ txt_times @
             str_cell show (row_get r ''avg_price'' (Num 0)) @ '' = '' @
             fmt_f True 2 v @ txt_rub_nl))"

definition cmd_rows ::
  "(string \<Rightarrow> real option) \<Rightarrow> (real \<Rightarrow> string) \<Rightarrow> py_error + spreadsheet \<Rightarrow> outcome" where
  "cmd_rows parse show conn =
     (case fetch parse conn of
        (calls, Inl e) \<Rightarrow> (calls @ [Answer (msg_access_error @ str_error e)], None)
      | (calls, Inr df) \<Rightarrow>
          (if empty df then (calls @ [Answer msg_rows_empty], None)
           else (case rows_loop parse show 1 (take 10 (records df)) msg_rows_header of
                   Inl e \<Rightarrow> (calls, Some e)
                 | Inr text \<Rightarrow> (calls @ [Answer text], None))))"

section \<open>Periodic refresh loop: \<^verbatim>\<open>periodic_task\<close>\<close>

text \<open>The \<^verbatim>\<open>try\<close> block of one turn of the loop.\<close>

definition periodic_body ::
  "(string \<Rightarrow> real option) \<Rightarrow> (real \<Rightarrow> string) \<Rightarrow> py_error + spreadsheet \<Rightarrow> outcome" where
  "periodic_body parse show conn =
     (case fetch parse conn of
        (calls, Inl e) \<Rightarrow> (calls, Some e)
      | (calls, Inr df) \<Rightarrow>
          (case fst (analyze_portfolio df) of
             Inl e \<Rightarrow> (calls, Some e)
           | Inr s \<Rightarrow> (calls @ [LogInfo (msg_periodic_total @ show (total s))], None)))"

text \<open>
  One turn: the \<^verbatim>\<open>try\<close> block, the handler \<^verbatim>\<open>except Exception\<close> that logs, and then
  \<^verbatim>\<open>await asyncio.sleep(60 * 30)\<close>.
\<close>

definition periodic_cycle ::
  "(string \<Rightarrow> real option) \<Rightarrow> (real \<Rightarrow> string) \<Rightarrow> py_error + spreadsheet \<Rightarrow> outcome" where
  "periodic_cycle parse show conn =
     (case periodic_body parse show conn of
        (evs, Some e) \<Rightarrow> (evs @ [LogException msg_periodic_error e, Sleep (60 * 30)], None)
      | (evs, None) \<Rightarrow> (evs @ [Sleep (60 * 30)], None))"

text \<open>
  \<^verbatim>\<open>while True\<close>, run for \<open>fuel\<close> turns from turn \<open>n\<close> on; \<open>conns k\<close> is what
  \<^verbatim>\<open>connect_gsheet()\<close> returns or raises in turn \<open>k\<close>. The loop has no exit of its own: it
  ends before the fuel does only if an exception leaves a turn, and then the second
  component holds it.
\<close>

fun periodic_task ::
  "(string \<Rightarrow> real option) \<Rightarrow> (real \<Rightarrow> string) \<Rightarrow> (nat \<Rightarrow> py_error + spreadsheet) \<Rightarrow>
   nat \<Rightarrow> nat \<Rightarrow> outcome" where
  "periodic_task parse show conns n 0 = ([], None)"
| "periodic_task parse show conns n (Suc fuel) =
     (case periodic_cycle parse show (conns n) of
        (evs, Some e) \<Rightarrow> (evs, Some e)
      | (evs, None) \<Rightarrow>
          (case periodic_task parse show conns (Suc n) fuel of
             (evs', r) \<Rightarrow> (evs @ evs', r)))"

text \<open>The texts of the replies in a trace, and the lengths of its waits, in order.\<close>

fun replies :: "event list \<Rightarrow> string list" where
  "replies [] = []"
| "replies (Answer t # evs) = t # replies evs"
| "replies (ev # evs) = replies evs"

fun sleeps :: "event list \<Rightarrow> nat list" where
  "sleeps [] = []"
| "sleeps (Sleep d # evs) = d # sleeps evs"
| "sleeps (ev # evs) = sleeps evs"

text \<open>
  The ways the source can fail while a handler acquires the rows, stated on what the sheet
  client answers: \<open>source_fails conn calls e\<close> holds when the client raises \<open>e\<close> and
  \<open>calls\<close> are the calls made up to there. Either \<^verbatim>\<open>connect_gsheet()\<close> raises; or the
  \<^verbatim>\<open>portfolio\<close> sheet opens and its \<^verbatim>\<open>get_all_records()\<close> raises; or no \<^verbatim>\<open>portfolio\<close> sheet
  opens and \<^verbatim>\<open>sheet1\<close> raises; or no \<^verbatim>\<open>portfolio\<close> sheet opens and \<^verbatim>\<open>get_all_records()\<close> of the
  first sheet raises.
\<close>

definition source_fails :: "py_error + spreadsheet \<Rightarrow> event list \<Rightarrow> py_error \<Rightarrow> bool" where
  "source_fails conn calls e =
     (case conn of
        Inl e0 \<Rightarrow> calls = [Connect] \<and> e = e0
      | Inr sh \<Rightarrow>
          (case worksheet sh EXPECTED_SHEET_NAME of
             Inr ws \<Rightarrow>
               calls = [Connect, Worksheet EXPECTED_SHEET_NAME, GetAllRecords] \<and> ws = Inl e
           | Inl e1 \<Rightarrow>
               (case sheet1 sh of
                  Inl e2 \<Rightarrow> calls = [Connect, Worksheet EXPECTED_SHEET_NAME, Sheet1] \<and> e = e2
                | Inr ws \<Rightarrow>
                    calls = [Connect, Worksheet EXPECTED_SHEET_NAME, Sheet1, GetAllRecords] \<and>
                    ws = Inl e)))"

text \<open>
  The source answers: the connection is made and the \<^verbatim>\<open>portfolio\<close> sheet, or the first sheet
  when no \<^verbatim>\<open>portfolio\<close> sheet opens, delivers the rows \<open>rs\<close>.
\<close>

definition source_delivers :: "py_error + spreadsheet \<Rightarrow> event list \<Rightarrow> row list \<Rightarrow> bool" where
  "source_delivers conn calls rs =
     (case conn of
        Inl e0 \<Rightarrow> False
      | Inr sh \<Rightarrow>
          (case worksheet sh EXPECTED_SHEET_NAME of
             Inr ws \<Rightarrow>
               calls = [Connect, Worksheet EXPECTED_SHEET_NAME, GetAllRecords] \<and> ws = Inr rs
           | Inl e1 \<Rightarrow>
               calls = [Connect, Worksheet EXPECTED_SHEET_NAME, Sheet1, GetAllRecords] \<and>
               sheet1 sh = Inr (Inr rs)))"

text \<open>
  A cell that \<^verbatim>\<open>fillna(0)\<close> leaves a number: anything but a string. The normalizer leaves
  only such cells in the columns \<^verbatim>\<open>qty\<close> and \<^verbatim>\<open>avg_price\<close>.
\<close>

fun numeric_cell :: "cell \<Rightarrow> bool" where
  "numeric_cell (Str s) = False"
| "numeric_cell c = True"

text \<open>
  The frame is not empty and has the columns \<^verbatim>\<open>qty\<close> and \<^verbatim>\<open>avg_price\<close>, without a string in
  either.
\<close>

definition priced :: "DataFrame \<Rightarrow> bool" where
  "priced df =
     (\<not> empty df \<and> ''qty'' \<in> set (columns df) \<and> ''avg_price'' \<in> set (columns df) \<and>
      list_all numeric_cell (column_values df ''qty'') \<and>
      list_all numeric_cell (column_values df ''avg_price''))"

section \<open>Sample inputs\<close>

text \<open>
  A reader of strings for the examples: it accepts the unsigned decimal integers and
  nothing else. The theorems below hold for every reader.
\<close>

definition is_digit :: "char \<Rightarrow> bool" where
  "is_digit c = (c \<in> set ''0123456789'')"

definition parse_digits :: "string \<Rightarrow> real option" where
  "parse_digits s =
     (if s \<noteq> [] \<and> list_all is_digit s
      then Some (of_nat (foldl (\<lambda>n c. 10 * n + (of_char c - 48)) 0 s))
      else None)"

text \<open>Scenario C of the specification: a quantity that is not a number.\<close>

definition row_bad_qty :: row where
  "row_bad_qty =
     [(''account'', Str ''A''), (''type'', Str ''stock''),
      (''qty'', Str ''abc''), (''avg_price'', Num 5)]"

text \<open>A sheet that has no \<^verbatim>\<open>qty\<close> column at all.\<close>

definition row_no_qty :: row where
  "row_no_qty =
     [(''account'', Str ''A''), (''type'', Str ''stock''),
      (''symbol'', Str ''X''), (''avg_price'', Num 5)]"

text \<open>Scenario A of the specification.\<close>

definition row_A :: row where
  "row_A =
     [(''account'', Str ''A''), (''type'', Str ''stock''), (''symbol'', Str ''X''),
      (''qty'', Num 10), (''avg_price'', Num 5)]"

text \<open>
  Two holdings worth 30 and 70. The second row has no \<^verbatim>\<open>account\<close> key, so the frame holds
  \<^verbatim>\<open>nan\<close> in that cell.
\<close>

definition rows_missing_account :: "row list" where
  "rows_missing_account =
     [[(''account'', Str ''A''), (''type'', Str ''stock''), (''qty'', Num 3), (''avg_price'', Num 10)],
      [(''type'', Str ''stock''), (''qty'', Num 7), (''avg_price'', Num 10)]]"

text \<open>
  The same holdings as a sheet with a fixed header delivers them when the account cell of
  the second row reads \<^verbatim>\<open>nan\<close>: the sheet client turns every cell that \<^verbatim>\<open>float()\<close> accepts
  into a float.
\<close>

definition rows_nan_account :: "row list" where
  "rows_nan_account =
     [[(''account'', Str ''A''), (''type'', Str ''stock''), (''qty'', Num 3), (''avg_price'', Num 10)],
      [(''account'', NaN), (''type'', Str ''stock''), (''qty'', Num 7), (''avg_price'', Num 10)]]"

text \<open>A printer of numbers for the examples: the whole part, in decimal.\<close>

definition show_whole :: "real \<Rightarrow> string" where
  "show_whole x = (if x < 0 then ''-'' else '''') @ digits (nat \<lfloor>\<bar>x\<bar>\<rfloor>)"

text \<open>A connection that succeeds, to a spreadsheet whose \<^verbatim>\<open>portfolio\<close> sheet holds the rows.\<close>

definition sheet_of :: "row list \<Rightarrow> py_error + spreadsheet" where
  "sheet_of rs =
     Inr \<lparr>worksheet = (\<lambda>name. Inr (Inr rs)), sheet1 = Inl (SourceError ''no sheet'')\<rparr>"

text \<open>One holding of 300 units at 5, worth 1500.\<close>

definition rows_1500 :: "row list" where
  "rows_1500 = [[(''symbol'', Str ''X''), (''qty'', Num 300), (''avg_price'', Num 5)]]"

text \<open>
  A connection that succeeds, to a spreadsheet without a \<^verbatim>\<open>portfolio\<close> sheet whose first
  sheet cannot be read.
\<close>

definition sheet_failing :: "py_error + spreadsheet" where
  "sheet_failing =
     Inr \<lparr>worksheet = (\<lambda>name. Inl (SourceError ''worksheet not found'')),
          sheet1 = Inr (Inl (SourceError ''quota exceeded''))\<rparr>"

text \<open>
  A printer of numbers for the examples: how Python prints a float whose value is a whole
  number, as in \<^verbatim>\<open>50.0\<close>.
\<close>

definition show_float :: "real \<Rightarrow> string" where
  "show_float x = (if x < 0 then ''-'' else '''') @ digits (nat \<lfloor>\<bar>x\<bar>\<rfloor>) @ ''.0''"

text \<open>A holding in a sheet that has no \<^verbatim>\<open>account\<close> column.\<close>

definition row_no_account :: row where
  "row_no_account =
     [(''type'', Str ''stock''), (''symbol'', Str ''X''), (''qty'', Num 10), (''avg_price'', Num 5)]"

section \<open>Facts about frames\<close>

lemma set_fold_add_key:
  "set (fold (\<lambda>k cols. add_key cols k) ks acc) = set acc \<union> set ks"
  by (induction ks arbitrary: acc) (auto simp: add_key_def)

lemma set_column_union: "set (column_union rs) = (\<Union>r\<in>set rs. fst ` set r)"
  by (simp add: column_union_def set_fold_add_key)

lemma columns_pd_DataFrame [simp]: "columns (pd_DataFrame rs) = column_union rs"
  by (simp add: pd_DataFrame_def Let_def)

lemma length_records_pd_DataFrame [simp]: "length (records (pd_DataFrame rs)) = length rs"
  by (simp add: pd_DataFrame_def Let_def)

lemma map_of_record_pd_DataFrame:
  "i < length rs \<Longrightarrow>
   map_of (records (pd_DataFrame rs) ! i) k =
     (if k \<in> set (column_union rs) then Some (get_cell (rs ! i) k) else None)"
  by (simp add: pd_DataFrame_def Let_def map_of_map_restrict restrict_map_def)

lemma columns_coerce_column [simp]: "columns (coerce_column parse c df) = columns df"
  by (simp add: coerce_column_def set_column_def add_key_def)

lemma length_records_coerce_column [simp]:
  "length (records (coerce_column parse c df)) = length (records df)"
  by (simp add: coerce_column_def set_column_def column_values_def)

lemma map_of_record_coerce_column:
  assumes "i < length (records df)"
  shows "map_of (records (coerce_column parse c df) ! i) k =
     (if c \<in> set (columns df) \<and> k = c
      then Some (fillna 0 (to_numeric parse (get_cell (records df ! i) c)))
      else map_of (records df ! i) k)"
  using assms
  by (simp add: coerce_column_def set_column_def column_values_def update_conv')

lemma fillna_to_numeric_Num: "\<exists>x. fillna 0 (to_numeric parse c) = Num x"
  by (cases c) (auto split: option.splits)

lemma fillna_to_numeric_zero:
  "non_numeric parse r col \<Longrightarrow> fillna 0 (to_numeric parse (get_cell r col)) = Num 0"
  by (auto simp: non_numeric_def get_cell_def split: option.splits cell.splits)

lemma length_records_normalize_rows [simp]:
  "length (records (normalize_rows parse rs)) = length rs"
  by (simp add: normalize_rows_def Let_def)

lemma columns_normalize_rows [simp]:
  "columns (normalize_rows parse rs) = column_union rs"
  by (simp add: normalize_rows_def Let_def)

lemma map_of_record_normalize_rows:
  assumes "i < length rs" and "col = ''qty'' \<or> col = ''avg_price''"
  shows "map_of (records (normalize_rows parse rs) ! i) col =
     (if col \<in> set (column_union rs)
      then Some (fillna 0 (to_numeric parse (get_cell (rs ! i) col)))
      else None)"
proof (cases "empty (pd_DataFrame rs)")
  case True
  with assms(1) have "column_union rs = []"
    by (auto simp: empty_def pd_DataFrame_def Let_def)
  with True assms(1) show ?thesis
    by (simp add: normalize_rows_def Let_def map_of_record_pd_DataFrame)
next
  case False
  let ?df = "pd_DataFrame rs"
  have q: "get_cell (records (coerce_column parse ''qty'' ?df) ! i) ''avg_price'' =
      get_cell (records ?df ! i) ''avg_price''"
    using assms(1) by (simp add: get_cell_def map_of_record_coerce_column)
  have p: "get_cell (records ?df ! i) k = (if k \<in> set (column_union rs) then get_cell (rs ! i) k else NaN)"
    for k
    using assms(1) by (simp add: get_cell_def map_of_record_pd_DataFrame)
  from False have "normalize_rows parse rs =
      coerce_column parse ''avg_price'' (coerce_column parse ''qty'' ?df)"
    by (simp add: normalize_rows_def Let_def)
  with assms show ?thesis
    by (auto simp: map_of_record_coerce_column map_of_record_pd_DataFrame q p)
qed

section \<open>The record normalizer\<close>

text \<open>
  Claim C1, as the code has it. Let \<open>col\<close> be \<^verbatim>\<open>qty\<close> or \<^verbatim>\<open>avg_price\<close> and take the record
  that normalization makes of the \<open>i\<close>-th fetched row. If \<open>col\<close> is a key of at least
  one fetched row (\<open>column_union\<close> lists these keys), the record holds a number under
  \<open>col\<close>, and that number is 0 whenever the row's own cell is absent, \<^verbatim>\<open>nan\<close> or a
  string that is not a number. If \<open>col\<close> is a key of no fetched row, the guard
  \<^verbatim>\<open>if col in df.columns\<close> skips it and the record has no field \<open>col\<close> at all. There are as
  many records as rows, and once the sheet has delivered its rows \<^verbatim>\<open>sheet_to_dataframe\<close>
  returns the frame: normalization itself raises nothing.
\<close>

theorem normalize_rows_numeric:
  assumes "col = ''qty'' \<or> col = ''avg_price''" and "i < length rs"
  shows "(col \<in> set (column_union rs) \<longrightarrow>
            (\<exists>x. map_of (records (normalize_rows parse rs) ! i) col = Some (Num x)) \<and>
            (non_numeric parse (rs ! i) col \<longrightarrow>
               map_of (records (normalize_rows parse rs) ! i) col = Some (Num 0))) \<and>
         (col \<notin> set (column_union rs) \<longrightarrow>
            map_of (records (normalize_rows parse rs) ! i) col = None) \<and>
         length (records (normalize_rows parse rs)) = length rs \<and>
         snd (sheet_to_dataframe parse \<lparr>worksheet = \<lambda>name. Inr (Inr rs), sheet1 = s1\<rparr>) =
           Inr (normalize_rows parse rs)"
  using assms fillna_to_numeric_Num [of parse "get_cell (rs ! i) col"]
  by (auto simp: map_of_record_normalize_rows fillna_to_numeric_zero sheet_to_dataframe_def)

theorem normalize_rows_numeric_witness:
  "non_numeric parse_digits row_bad_qty ''qty'' \<and>
   map_of (records (normalize_rows parse_digits [row_bad_qty]) ! 0) ''qty'' = Some (Num 0) \<and>
   ''qty'' \<notin> set (column_union [row_no_qty]) \<and>
   map_of (records (normalize_rows parse_digits [row_no_qty]) ! 0) ''qty'' = None"
  using normalize_rows_numeric [of "''qty''" 0 "[row_bad_qty]" parse_digits]
    normalize_rows_numeric [of "''qty''" 0 "[row_no_qty]" parse_digits]
  by (simp add: non_numeric_def column_union_def add_key_def row_bad_qty_def row_no_qty_def
      parse_digits_def is_digit_def)

text \<open>
  Claim C1 as the specification words it fails where the column is missing from the
  whole sheet: the \<^verbatim>\<open>qty\<close> cell of the row is absent, and the normalized record has no
  quantity, so its quantity is not 0.
\<close>

theorem absent_column_not_zero:
  "non_numeric parse_digits row_no_qty ''qty'' \<and>
   map_of (records (normalize_rows parse_digits [row_no_qty]) ! 0) ''qty'' \<noteq> Some (Num 0)"
  by (simp add: normalize_rows_def pd_DataFrame_def column_union_def add_key_def get_cell_def
      empty_def coerce_column_def set_column_def column_values_def non_numeric_def
      row_no_qty_def)

section \<open>Facts about the aggregation\<close>

lemma collect_map_Inr: "collect (map (\<lambda>x. Inr (f x)) xs) = Inr (map f xs)"
  by (induction xs) auto

lemma collect_length: "collect xs = Inr ys \<Longrightarrow> length ys = length xs"
proof (induction xs arbitrary: ys)
  case Nil
  then show ?case by simp
next
  case (Cons x xs)
  then show ?case by (cases x) (auto split: sum.splits)
qed

lemma sum_insert_group:
  "sum_list (map snd (insert_group k v g)) = v + sum_list (map snd g)"
  by (induction g) auto

lemma sum_fold_group_step:
  "sum_list (map snd (fold (group_step key) rs g)) =
     sum_list (map snd g) +
     sum_list (map (\<lambda>r. value_of (get_cell r ''value'')) (filter (\<lambda>r. get_cell r key \<noteq> NaN) rs))"
proof (induction rs arbitrary: g)
  case Nil
  then show ?case by simp
next
  case (Cons r rs)
  have "group_step key r g =
      (if get_cell r key = NaN then g
       else insert_group (get_cell r key) (value_of (get_cell r ''value'')) g)"
    by (simp add: group_step_def split: cell.splits)
  then show ?case
    by (simp add: Cons.IH sum_insert_group)
qed

lemma pct_map_nonzero:
  "tot \<noteq> 0 \<Longrightarrow> pct_map tot g = Inr (map (\<lambda>(k, v). (k, v / tot * 100)) g)"
  unfolding pct_map_def
  by (induction g) (auto simp: pct_def py_div_def)

lemma pct_map_zero: "pct_map 0 g = Inr (map (\<lambda>(k, v). (k, 0)) g)"
  unfolding pct_map_def
  by (induction g) (auto simp: pct_def)

lemma sum_pct_entries:
  "sum_list (map snd (map (\<lambda>(k, v). (k, v / tot * 100)) g)) =
     sum_list (map snd g) / (tot :: real) * 100"
  by (induction g) (auto simp: add_divide_distrib distrib_right)

lemma summarize_Inr:
  assumes "summarize df = Inr s"
  shows "total s = sum_list (map (\<lambda>r. value_of (get_cell r ''value'')) (records df))"
    and "by_account s = fold (group_step ''account'') (records df) []"
    and "by_type s = fold (group_step ''type'') (records df) []"
    and "pct_map (total s) (by_account s) = Inr m \<Longrightarrow> by_account_pct s = Some m"
    and "pct_map (total s) (by_type s) = Inr m' \<Longrightarrow> by_type_pct s = Some m'"
    and "rows s = records df"
  using assms
  by (auto simp: summarize_def Let_def groupby_sum_def column_values_def comp_def
      split: sum.splits if_splits)

lemma summarize_not_zero_division: "summarize df \<noteq> Inl ZeroDivisionError"
proof (cases "sum_list (map value_of (column_values df ''value'')) = 0")
  case True
  then show ?thesis
    by (auto simp: summarize_def Let_def groupby_sum_def pct_map_zero split: sum.splits)
next
  case False
  then show ?thesis
    by (auto simp: summarize_def Let_def groupby_sum_def pct_map_nonzero split: sum.splits)
qed

lemma collect_Inl: "collect xs = Inl e \<Longrightarrow> Inl e \<in> set xs"
proof (induction xs)
  case Nil
  then show ?case by simp
next
  case (Cons x xs)
  then show ?case by (cases x) (auto split: sum.splits)
qed

lemma position_value_error:
  "position_value q p = Inl e \<Longrightarrow> e = TypeError ''unsupported operand type(s) for *''"
  by (auto simp: position_value_def split: cell.splits prod.splits)

lemma position_values_not_zero_division: "position_values df \<noteq> Inl ZeroDivisionError"
proof
  assume a: "position_values df = Inl ZeroDivisionError"
  then show False
  proof (cases "get_column df ''qty''")
    case (Inl e)
    with a show False by (auto simp: position_values_def get_column_def split: if_splits)
  next
    case qs: (Inr qs)
    show False
    proof (cases "get_column df ''avg_price''")
      case (Inl e)
      with a qs show False by (auto simp: position_values_def get_column_def split: if_splits)
    next
      case (Inr ps)
      with a qs have "Inl ZeroDivisionError \<in> set (map (\<lambda>(q, p). position_value q p) (zip qs ps))"
        by (auto simp: position_values_def dest: collect_Inl)
      then show False by (auto dest: position_value_error [OF sym])
    qed
  qed
qed

lemma position_values_length:
  "position_values df = Inr vs \<Longrightarrow> length vs = length (records df)"
  by (auto simp: position_values_def get_column_def column_values_def
      split: sum.splits if_splits dest!: collect_length)

lemma length_records_set_column:
  "length vs = length (records df) \<Longrightarrow> length (records (set_column df c vs)) = length (records df)"
  by (simp add: set_column_def)

lemma map_of_record_set_column:
  "length vs = length (records df) \<Longrightarrow> i < length (records df) \<Longrightarrow>
   map_of (records (set_column df c vs) ! i) k =
     (if k = c then Some (vs ! i) else map_of (records df ! i) k)"
  by (simp add: set_column_def update_conv')

lemma get_cell_set_column:
  "length vs = length (records df) \<Longrightarrow> i < length (records df) \<Longrightarrow>
   get_cell (records (set_column df c vs) ! i) k =
     (if k = c then vs ! i else get_cell (records df ! i) k)"
  by (simp add: get_cell_def map_of_record_set_column)

lemma column_values_set_column:
  assumes "length vs = length (records df)"
  shows "column_values (set_column df c vs) k = (if k = c then vs else column_values df k)"
  using assms
  by (auto simp: column_values_def list_eq_iff_nth_eq length_records_set_column get_cell_set_column)


lemmas frame_defs = normalize_rows_def pd_DataFrame_def column_union_def add_key_def
  get_cell_def empty_def coerce_column_def set_column_def column_values_def get_column_def

lemmas analysis_defs = analyze_portfolio_def position_values_def position_value_def
  summarize_def groupby_sum_def group_step_def pct_map_def pct_def py_div_def


lemma analyze_portfolio_nonempty:
  assumes "\<not> empty df" and "fst (analyze_portfolio df) = Inr s"
  obtains vs where "position_values df = Inr vs"
    and "summarize (set_column df ''value'' (map Num vs)) = Inr s"
    and "snd (analyze_portfolio df) = set_column df ''value'' (map Num vs)"
  using assms
  by (auto simp: analyze_portfolio_def Let_def split: sum.splits)

lemma filter_keyed:
  "\<forall>r\<in>set rs. get_cell r key \<noteq> NaN \<Longrightarrow> filter (\<lambda>r. get_cell r key \<noteq> NaN) rs = rs"
  by (induction rs) auto

lemma keyed_after_set_column:
  assumes "length vs = length (records df)" and "key \<noteq> c"
    and "\<forall>r\<in>set (records df). get_cell r key \<noteq> NaN"
  shows "\<forall>r\<in>set (records (set_column df c vs)). get_cell r key \<noteq> NaN"
proof
  fix r assume "r \<in> set (records (set_column df c vs))"
  then obtain i where i: "i < length (records (set_column df c vs))"
    and r: "r = records (set_column df c vs) ! i"
    by (auto simp: in_set_conv_nth)
  with assms(1) have "i < length (records df)" by (simp add: length_records_set_column)
  with assms r show "get_cell r key \<noteq> NaN"
    by (simp add: get_cell_set_column)
qed

lemma group_sums_conserve:
  assumes "\<not> empty df" and "fst (analyze_portfolio df) = Inr s"
  shows "(\<forall>r\<in>set (records df). get_cell r ''account'' \<noteq> NaN) \<longrightarrow>
           sum_list (map snd (by_account s)) = total s"
    and "(\<forall>r\<in>set (records df). get_cell r ''type'' \<noteq> NaN) \<longrightarrow>
           sum_list (map snd (by_type s)) = total s"
proof -
  from assms obtain vs where vs: "position_values df = Inr vs"
    and s: "summarize (set_column df ''value'' (map Num vs)) = Inr s"
    by (rule analyze_portfolio_nonempty)
  let ?df' = "set_column df ''value'' (map Num vs)"
  have len: "length (map Num vs) = length (records df)"
    using vs by (simp add: position_values_length)
  have tot: "total s = sum_list (map (\<lambda>r. value_of (get_cell r ''value'')) (records ?df'))"
    by (rule summarize_Inr(1) [OF s])
  show "(\<forall>r\<in>set (records df). get_cell r ''account'' \<noteq> NaN) \<longrightarrow>
          sum_list (map snd (by_account s)) = total s"
  proof
    assume "\<forall>r\<in>set (records df). get_cell r ''account'' \<noteq> NaN"
    then have "\<forall>r\<in>set (records ?df'). get_cell r ''account'' \<noteq> NaN"
      using len by (intro keyed_after_set_column) auto
    then show "sum_list (map snd (by_account s)) = total s"
      by (simp add: summarize_Inr(2) [OF s] tot sum_fold_group_step filter_keyed)
  qed
  show "(\<forall>r\<in>set (records df). get_cell r ''type'' \<noteq> NaN) \<longrightarrow>
          sum_list (map snd (by_type s)) = total s"
  proof
    assume "\<forall>r\<in>set (records df). get_cell r ''type'' \<noteq> NaN"
    then have "\<forall>r\<in>set (records ?df'). get_cell r ''type'' \<noteq> NaN"
      using len by (intro keyed_after_set_column) auto
    then show "sum_list (map snd (by_type s)) = total s"
      by (simp add: summarize_Inr(3) [OF s] tot sum_fold_group_step filter_keyed)
  qed
qed

lemma percentages_sum_to_100:
  assumes "\<not> empty df" and "fst (analyze_portfolio df) = Inr s" and "total s \<noteq> 0"
  shows "(\<forall>r\<in>set (records df). get_cell r ''account'' \<noteq> NaN) \<longrightarrow>
           sum_list (pct_values (by_account_pct s)) = 100"
    and "(\<forall>r\<in>set (records df). get_cell r ''type'' \<noteq> NaN) \<longrightarrow>
           sum_list (pct_values (by_type_pct s)) = 100"
proof -
  from assms(1,2) obtain vs where
    s: "summarize (set_column df ''value'' (map Num vs)) = Inr s"
    by (rule analyze_portfolio_nonempty)
  have a: "by_account_pct s = Some (map (\<lambda>(k, v). (k, v / total s * 100)) (by_account s))"
    using summarize_Inr(4) [OF s] assms(3) by (simp add: pct_map_nonzero)
  have t: "by_type_pct s = Some (map (\<lambda>(k, v). (k, v / total s * 100)) (by_type s))"
    using summarize_Inr(5) [OF s] assms(3) by (simp add: pct_map_nonzero)
  show "(\<forall>r\<in>set (records df). get_cell r ''account'' \<noteq> NaN) \<longrightarrow>
          sum_list (pct_values (by_account_pct s)) = 100"
  proof
    assume "\<forall>r\<in>set (records df). get_cell r ''account'' \<noteq> NaN"
    with group_sums_conserve(1) [OF assms(1,2)]
    have "sum_list (map snd (by_account s)) = total s" by simp
    moreover have "sum_list (pct_values (by_account_pct s)) =
        sum_list (map snd (by_account s)) / total s * 100"
      by (simp only: a pct_values_def option.case sum_pct_entries)
    ultimately show "sum_list (pct_values (by_account_pct s)) = 100"
      using assms(3) by simp
  qed
  show "(\<forall>r\<in>set (records df). get_cell r ''type'' \<noteq> NaN) \<longrightarrow>
          sum_list (pct_values (by_type_pct s)) = 100"
  proof
    assume "\<forall>r\<in>set (records df). get_cell r ''type'' \<noteq> NaN"
    with group_sums_conserve(2) [OF assms(1,2)]
    have "sum_list (map snd (by_type s)) = total s" by simp
    moreover have "sum_list (pct_values (by_type_pct s)) =
        sum_list (map snd (by_type s)) / total s * 100"
      by (simp only: t pct_values_def option.case sum_pct_entries)
    ultimately show "sum_list (pct_values (by_type_pct s)) = 100"
      using assms(3) by simp
  qed
qed



lemma collect_all_Inr:
  "(\<And>x. x \<in> set xs \<Longrightarrow> \<exists>y. x = Inr y) \<Longrightarrow> \<exists>ys. collect xs = Inr ys"
proof (induction xs)
  case Nil
  then show ?case by simp
next
  case (Cons x xs)
  then obtain y where "x = Inr y" by auto
  moreover from Cons obtain ys where "collect xs = Inr ys" by auto
  ultimately show ?case by simp
qed

lemma normalized_cell_is_number:
  assumes "i < length rs" and "col = ''qty'' \<or> col = ''avg_price''"
    and "col \<in> set (column_union rs)"
  shows "\<exists>x. get_cell (records (normalize_rows parse rs) ! i) col = Num x"
  using assms fillna_to_numeric_Num [of parse "get_cell (rs ! i) col"]
  by (auto simp: get_cell_def map_of_record_normalize_rows)

lemma position_values_normalized:
  assumes "''qty'' \<in> set (column_union rs)" and "''avg_price'' \<in> set (column_union rs)"
  shows "\<exists>vs. position_values (normalize_rows parse rs) = Inr vs"
proof -
  let ?df = "normalize_rows parse rs"
  let ?qs = "column_values ?df ''qty''" and ?ps = "column_values ?df ''avg_price''"
  have "\<exists>y. x = Inr y" if "x \<in> set (map (\<lambda>(q, p). position_value q p) (zip ?qs ?ps))" for x
  proof -
    from that obtain i where i: "i < length rs"
      and x: "x = position_value (?qs ! i) (?ps ! i)"
      by (auto simp: in_set_conv_nth column_values_def)
    from i obtain a where "?qs ! i = Num a"
      using normalized_cell_is_number [of i rs "''qty''" parse] assms
      by (auto simp: column_values_def)
    moreover from i obtain b where "?ps ! i = Num b"
      using normalized_cell_is_number [of i rs "''avg_price''" parse] assms
      by (auto simp: column_values_def)
    ultimately show ?thesis by (simp add: x position_value_def)
  qed
  then have "\<exists>vs. collect (map (\<lambda>(q, p). position_value q p) (zip ?qs ?ps)) = Inr vs"
    by (rule collect_all_Inr)
  with assms show ?thesis
    by (simp add: position_values_def get_column_def)
qed

lemma summarize_returns:
  assumes "''account'' \<in> set (columns df)" and "''type'' \<in> set (columns df)"
  shows "\<exists>s. summarize df = Inr s"
proof (cases "sum_list (map value_of (column_values df ''value'')) = 0")
  case True
  with assms show ?thesis
    by (simp add: summarize_def Let_def groupby_sum_def pct_map_zero)
next
  case False
  with assms show ?thesis
    by (simp add: summarize_def Let_def groupby_sum_def pct_map_nonzero)
qed

lemma analyze_portfolio_returns:
  assumes "''qty'' \<in> set (column_union rs)" and "''avg_price'' \<in> set (column_union rs)"
    and "''account'' \<in> set (column_union rs)" and "''type'' \<in> set (column_union rs)"
  shows "\<exists>s. fst (analyze_portfolio (normalize_rows parse rs)) = Inr s"
proof (cases "empty (normalize_rows parse rs)")
  case True
  then show ?thesis by (simp add: analyze_portfolio_def)
next
  case False
  from position_values_normalized [OF assms(1,2), of parse]
  obtain vs where vs: "position_values (normalize_rows parse rs) = Inr vs" by auto
  let ?df' = "set_column (normalize_rows parse rs) ''value'' (map Num vs)"
  have "''account'' \<in> set (columns ?df')" and "''type'' \<in> set (columns ?df')"
    using assms(3,4) by (auto simp: set_column_def add_key_def)
  then obtain s where "summarize ?df' = Inr s"
    using summarize_returns by blast
  with False vs show ?thesis
    by (simp add: analyze_portfolio_def Let_def)
qed

lemma collect_position_values:
  assumes "length qs = length ps" and "list_all numeric_cell qs" and "list_all numeric_cell ps"
  shows "collect (map (\<lambda>(q, p). position_value q p) (zip qs ps)) =
     Inr (map (\<lambda>(q, p). value_of (fillna 0 q) * value_of (fillna 0 p)) (zip qs ps))"
  using assms
proof (induction qs ps rule: list_induct2)
  case Nil
  then show ?case by simp
next
  case (Cons q qs p ps)
  then have "position_value q p = Inr (value_of (fillna 0 q) * value_of (fillna 0 p))"
    by (cases q; cases p) (simp_all add: position_value_def)
  with Cons show ?case by simp
qed

lemma position_values_priced:
  assumes "priced df"
  shows "position_values df =
     Inr (map (\<lambda>r. value_of (fillna 0 (get_cell r ''qty'')) *
                    value_of (fillna 0 (get_cell r ''avg_price''))) (records df))"
proof -
  let ?qs = "column_values df ''qty''" and ?ps = "column_values df ''avg_price''"
  have "length ?qs = length ?ps" by (simp add: column_values_def)
  moreover from assms have "list_all numeric_cell ?qs" and "list_all numeric_cell ?ps"
    by (simp_all add: priced_def)
  ultimately have "collect (map (\<lambda>(q, p). position_value q p) (zip ?qs ?ps)) =
      Inr (map (\<lambda>(q, p). value_of (fillna 0 q) * value_of (fillna 0 p)) (zip ?qs ?ps))"
    by (rule collect_position_values)
  moreover have "map (\<lambda>(q, p). value_of (fillna 0 q) * value_of (fillna 0 p)) (zip ?qs ?ps) =
      map (\<lambda>r. value_of (fillna 0 (get_cell r ''qty'')) *
                 value_of (fillna 0 (get_cell r ''avg_price''))) (records df)"
    by (simp add: column_values_def zip_map_map map_zip_map zip_same_conv_map)
  ultimately show ?thesis
    using assms by (simp add: position_values_def get_column_def priced_def)
qed

lemma analyze_portfolio_unchanged:
  assumes "empty df \<or> ''qty'' \<notin> set (columns df) \<or> ''avg_price'' \<notin> set (columns df)"
  shows "snd (analyze_portfolio df) = df"
  using assms
  by (auto simp: analyze_portfolio_def position_values_def get_column_def)

lemma analyze_portfolio_priced:
  assumes "priced df"
  shows "analyze_portfolio df =
     (summarize (set_column df ''value''
        (map (\<lambda>r. Num (value_of (fillna 0 (get_cell r ''qty'')) *
                         value_of (fillna 0 (get_cell r ''avg_price'')))) (records df))),
      set_column df ''value''
        (map (\<lambda>r. Num (value_of (fillna 0 (get_cell r ''qty'')) *
                         value_of (fillna 0 (get_cell r ''avg_price'')))) (records df)))"
  using assms position_values_priced [OF assms]
  by (simp add: analyze_portfolio_def Let_def priced_def comp_def)

lemma normalized_frame_priced:
  assumes "rs \<noteq> []" and "''qty'' \<in> set (column_union rs)"
    and "''avg_price'' \<in> set (column_union rs)"
  shows "priced (normalize_rows parse rs)"
proof -
  let ?df = "normalize_rows parse rs"
  have "numeric_cell (get_cell (records ?df ! i) col)"
    if "i < length rs" and "col = ''qty'' \<or> col = ''avg_price''" for i col
    using normalized_cell_is_number [OF that, of parse] assms(2,3) that(2) by auto
  then have "list_all numeric_cell (column_values ?df ''qty'')"
    and "list_all numeric_cell (column_values ?df ''avg_price'')"
    by (auto simp: column_values_def list_all_length)
  moreover have "\<not> empty ?df"
    using assms by (auto simp: empty_def dest: arg_cong [where f = length])
  ultimately show ?thesis
    using assms(2,3) by (simp add: priced_def)
qed


section \<open>The aggregation engine\<close>

text \<open>
  Claim C3. On every frame, \<^verbatim>\<open>analyze_portfolio\<close> does not raise \<^verbatim>\<open>ZeroDivisionError\<close>, and
  when it returns a summary whose total is 0, every entry of each percentage map of that
  summary is 0. (The summary of an empty frame has no percentage maps, hence no entries.)
\<close>

theorem zero_total_safety:
  "fst (analyze_portfolio df) \<noteq> Inl ZeroDivisionError \<and>
   (fst (analyze_portfolio df) = Inr s \<and> total s = 0 \<longrightarrow>
      set (pct_values (by_account_pct s)) \<subseteq> {0} \<and>
      set (pct_values (by_type_pct s)) \<subseteq> {0})"
proof (cases "empty df")
  case True
  then show ?thesis by (auto simp: analyze_portfolio_def pct_values_def)
next
  case ne: False
  show ?thesis
  proof (cases "position_values df")
    case (Inl e)
    with ne position_values_not_zero_division [of df] show ?thesis
      by (auto simp: analyze_portfolio_def)
  next
    case (Inr vs)
    let ?df' = "set_column df ''value'' (map Num vs)"
    from ne Inr have r: "fst (analyze_portfolio df) = summarize ?df'"
      by (simp add: analyze_portfolio_def Let_def)
    have "set (pct_values (by_account_pct s)) \<subseteq> {0} \<and> set (pct_values (by_type_pct s)) \<subseteq> {0}"
      if s: "summarize ?df' = Inr s" and z: "total s = 0"
    proof -
      have "by_account_pct s = Some (map (\<lambda>(k, v). (k, 0)) (by_account s))"
        using summarize_Inr(4) [OF s] z by (simp add: pct_map_zero)
      moreover have "by_type_pct s = Some (map (\<lambda>(k, v). (k, 0)) (by_type s))"
        using summarize_Inr(5) [OF s] z by (simp add: pct_map_zero)
      ultimately show ?thesis by (auto simp: pct_values_def)
    qed
    with r summarize_not_zero_division [of ?df'] show ?thesis by auto
  qed
qed

theorem zero_total_safety_witness:
  "\<exists>s. fst (analyze_portfolio (normalize_rows parse_digits [row_bad_qty])) = Inr s \<and>
       total s = 0 \<and> pct_values (by_account_pct s) = [0] \<and> pct_values (by_type_pct s) = [0] \<and>
       set (pct_values (by_account_pct s)) \<subseteq> {0}"
proof -
  let ?s = "\<lparr>total = 0, by_account = [(Str ''A'', 0)], by_account_pct = Some [(Str ''A'', 0)],
      by_type = [(Str ''stock'', 0)], by_type_pct = Some [(Str ''stock'', 0)],
      rows = [[(''account'', Str ''A''), (''type'', Str ''stock''), (''qty'', Num 0),
               (''avg_price'', Num 5), (''value'', Num 0)]]\<rparr>"
  have e: "fst (analyze_portfolio (normalize_rows parse_digits [row_bad_qty])) = Inr ?s"
    by (simp add: frame_defs analysis_defs row_bad_qty_def parse_digits_def is_digit_def)
  from zero_total_safety [of "normalize_rows parse_digits [row_bad_qty]" ?s] e
  show ?thesis by (simp add: pct_values_def)
qed


text \<open>
  Claim C5, the code at the empty input. The summary of an empty record sequence has total
  0, empty group maps and no rows, but the dict of the early return has no key
  \<^verbatim>\<open>by_account_pct\<close> and no key \<^verbatim>\<open>by_type_pct\<close>: the percentage maps are absent, not empty.
\<close>

theorem empty_summary_lacks_percent_maps:
  "analyze_portfolio (normalize_rows parse []) =
     (Inr \<lparr>total = 0, by_account = [], by_account_pct = None,
           by_type = [], by_type_pct = None, rows = []\<rparr>,
      \<lparr>columns = [], records = []\<rparr>)"
  by (simp add: frame_defs analysis_defs)


text \<open>
  Claim C2, the code at a record set with a missing account (the key is absent from the
  row, or the cell is \<^verbatim>\<open>nan\<close>). The holding without an account counts in the total (100)
  and in no account group: the by-account values sum to 30.
\<close>

theorem missing_account_loses_value:
  "(\<exists>s. fst (analyze_portfolio (normalize_rows parse_digits rows_missing_account)) = Inr s \<and>
        total s = 100 \<and> by_account s = [(Str ''A'', 30)] \<and>
        sum_list (map snd (by_account s)) = 30) \<and>
   (\<exists>s. fst (analyze_portfolio (normalize_rows parse_digits rows_nan_account)) = Inr s \<and>
        total s = 100 \<and> by_account s = [(Str ''A'', 30)] \<and>
        sum_list (map snd (by_account s)) = 30)"
  by (simp add: frame_defs analysis_defs rows_missing_account_def rows_nan_account_def)

text \<open>
  Claim C4, the code at the same record set: the total is positive and the by-account
  percentages sum to 30, not 100.
\<close>

theorem missing_account_percent_sum:
  "\<exists>s. fst (analyze_portfolio (normalize_rows parse_digits rows_missing_account)) = Inr s \<and>
       0 < total s \<and> by_account_pct s = Some [(Str ''A'', 30)] \<and>
       sum_list (pct_values (by_account_pct s)) = 30"
  by (simp add: frame_defs analysis_defs rows_missing_account_def pct_values_def)

text \<open>
  Claim C8, as the code has it. \<^verbatim>\<open>analyze_portfolio\<close> changes the frame it is given in one
  way only. Whatever the frame and whatever the outcome, the frame the caller holds
  afterwards has the same number of records, the same columns and at most \<^verbatim>\<open>value\<close> more,
  and every field other than \<^verbatim>\<open>value\<close> of every record is as before. An empty frame, and
  a frame without the column \<^verbatim>\<open>qty\<close> or without \<^verbatim>\<open>avg_price\<close> (the \<^verbatim>\<open>KeyError\<close> comes before
  the assignment of line 77), are left exactly as they were. A non-empty frame that has
  both columns, with no string in them (as the normalizer leaves them), gets the column
  \<^verbatim>\<open>value\<close>, and every record the product of its quantity and its price under it (\<^verbatim>\<open>nan\<close>
  counting as 0): also when the grouping that follows raises. A returned summary carries
  the records of the frame as it is afterwards (none for an empty frame). The summary is
  a function of the frame alone.
\<close>

theorem analyze_portfolio_frame:
  assumes "analyze_portfolio df = (res, df')"
  shows "length (records df') = length (records df) \<and>
         set (columns df) \<subseteq> set (columns df') \<and>
         set (columns df') \<subseteq> insert ''value'' (set (columns df)) \<and>
         (i < length (records df) \<and> k \<noteq> ''value'' \<longrightarrow>
            map_of (records df' ! i) k = map_of (records df ! i) k) \<and>
         (empty df \<or> ''qty'' \<notin> set (columns df) \<or> ''avg_price'' \<notin> set (columns df) \<longrightarrow>
            df' = df) \<and>
         (priced df \<longrightarrow>
            ''value'' \<in> set (columns df') \<and>
            (i < length (records df) \<longrightarrow>
               map_of (records df' ! i) ''value'' =
                 Some (Num (value_of (fillna 0 (get_cell (records df ! i) ''qty'')) *
                            value_of (fillna 0 (get_cell (records df ! i) ''avg_price'')))))) \<and>
         (res = Inr s \<longrightarrow> rows s = (if empty df then [] else records df'))"
proof -
  have unchanged: "df' = df"
    if "empty df \<or> ''qty'' \<notin> set (columns df) \<or> ''avg_price'' \<notin> set (columns df)"
    using analyze_portfolio_unchanged [OF that] assms by simp
  have general: "length (records df') = length (records df) \<and>
      set (columns df) \<subseteq> set (columns df') \<and>
      set (columns df') \<subseteq> insert ''value'' (set (columns df)) \<and>
      (i < length (records df) \<and> k \<noteq> ''value'' \<longrightarrow>
         map_of (records df' ! i) k = map_of (records df ! i) k) \<and>
      (res = Inr s \<longrightarrow> rows s = (if empty df then [] else records df'))"
  proof (cases "empty df")
    case True
    with assms show ?thesis by (auto simp: analyze_portfolio_def)
  next
    case ne: False
    show ?thesis
    proof (cases "position_values df")
      case (Inl e)
      with ne assms show ?thesis by (auto simp: analyze_portfolio_def)
    next
      case (Inr vs)
      have len: "length (map Num vs) = length (records df)"
        using Inr by (simp add: position_values_length)
      from ne Inr assms have df': "df' = set_column df ''value'' (map Num vs)"
        and res: "res = summarize df'"
        by (auto simp: analyze_portfolio_def Let_def)
      have cols: "columns df' = add_key (columns df) ''value''"
        by (simp add: df' set_column_def)
      have 1: "length (records df') = length (records df)"
        unfolding df' using len by (rule length_records_set_column)
      have 2: "set (columns df) \<subseteq> set (columns df')"
        and 3: "set (columns df') \<subseteq> insert ''value'' (set (columns df))"
        by (auto simp: cols add_key_def)
      have 5: "map_of (records df' ! i) k = map_of (records df ! i) k"
        if "i < length (records df)" "k \<noteq> ''value''"
        unfolding df' using that len by (simp add: map_of_record_set_column)
      have 7: "rows s = records df'" if "res = Inr s"
        using that res summarize_Inr(6) [of df' s] by simp
      from ne 1 2 3 5 7 show ?thesis by simp
    qed
  qed
  have written: "''value'' \<in> set (columns df') \<and>
      (i < length (records df) \<longrightarrow>
         map_of (records df' ! i) ''value'' =
           Some (Num (value_of (fillna 0 (get_cell (records df ! i) ''qty'')) *
                      value_of (fillna 0 (get_cell (records df ! i) ''avg_price'')))))"
    if p: "priced df"
  proof -
    let ?vs = "map (\<lambda>r. Num (value_of (fillna 0 (get_cell r ''qty'')) *
                             value_of (fillna 0 (get_cell r ''avg_price'')))) (records df)"
    from analyze_portfolio_priced [OF p] assms
    have df': "df' = set_column df ''value'' ?vs" by simp
    have "''value'' \<in> set (columns df')"
      by (simp add: df' set_column_def add_key_def)
    moreover have "map_of (records df' ! i) ''value'' = Some (?vs ! i)"
      if "i < length (records df)"
      unfolding df' using that by (simp add: map_of_record_set_column)
    ultimately show ?thesis by simp
  qed
  from unchanged general written show ?thesis by blast
qed

theorem analyze_portfolio_frame_witness:
  "priced (normalize_rows parse_digits [row_A]) \<and>
   map_of (records (snd (analyze_portfolio (normalize_rows parse_digits [row_A]))) ! 0) ''qty'' =
     map_of (records (normalize_rows parse_digits [row_A]) ! 0) ''qty'' \<and>
   map_of (records (snd (analyze_portfolio (normalize_rows parse_digits [row_A]))) ! 0) ''value'' =
     Some (Num 50) \<and>
   snd (analyze_portfolio (normalize_rows parse_digits [])) = normalize_rows parse_digits [] \<and>
   analyze_portfolio (normalize_rows parse_digits [row_no_qty]) =
     (Inl (KeyError ''qty''), normalize_rows parse_digits [row_no_qty]) \<and>
   priced (normalize_rows parse_digits [row_no_account]) \<and>
   fst (analyze_portfolio (normalize_rows parse_digits [row_no_account])) =
     Inl (KeyError ''account'') \<and>
   map_of (records (snd (analyze_portfolio (normalize_rows parse_digits [row_no_account]))) ! 0)
     ''value'' = Some (Num 50)"
  using analyze_portfolio_frame
      [of "normalize_rows parse_digits [row_A]"
          "fst (analyze_portfolio (normalize_rows parse_digits [row_A]))"
          "snd (analyze_portfolio (normalize_rows parse_digits [row_A]))" 0 "''qty''"
          "\<lparr>total = 50, by_account = [(Str ''A'', 50)],
            by_account_pct = Some [(Str ''A'', 100)],
            by_type = [(Str ''stock'', 50)], by_type_pct = Some [(Str ''stock'', 100)],
            rows = [row_A @ [(''value'', Num 50)]]\<rparr>"]
    analyze_portfolio_frame
      [of "normalize_rows parse_digits []"
          "fst (analyze_portfolio (normalize_rows parse_digits []))"
          "snd (analyze_portfolio (normalize_rows parse_digits []))"]
    analyze_portfolio_frame
      [of "normalize_rows parse_digits [row_no_qty]"
          "fst (analyze_portfolio (normalize_rows parse_digits [row_no_qty]))"
          "snd (analyze_portfolio (normalize_rows parse_digits [row_no_qty]))"]
    analyze_portfolio_frame
      [of "normalize_rows parse_digits [row_no_account]"
          "fst (analyze_portfolio (normalize_rows parse_digits [row_no_account]))"
          "snd (analyze_portfolio (normalize_rows parse_digits [row_no_account]))" 0]
  by (simp add: frame_defs analysis_defs priced_def row_A_def row_no_qty_def row_no_account_def)

text \<open>
  Claim C8 as the specification words it fails: aggregation adds a field to every record
  of the frame it is given. Before the call the record has no \<^verbatim>\<open>value\<close>, afterwards it
  has the value 50, and the frame is not the frame that was passed in.
\<close>

theorem analyze_portfolio_adds_value:
  "map_of (records (normalize_rows parse_digits [row_A]) ! 0) ''value'' = None \<and>
   map_of (records (snd (analyze_portfolio (normalize_rows parse_digits [row_A]))) ! 0) ''value''
     = Some (Num 50) \<and>
   snd (analyze_portfolio (normalize_rows parse_digits [row_A])) \<noteq>
     normalize_rows parse_digits [row_A]"
  by (simp add: frame_defs analysis_defs row_A_def)
section \<open>Facts about the handlers and the loop\<close>

lemmas handler_defs = fetch_def sheet_to_dataframe_def EXPECTED_SHEET_NAME_def row_get_def
  record_value_def fmul_def fadd_def fmt_f_def round_half_even_def digits.simps digit_char_def group3.simps

lemma replies_append [simp]: "replies (xs @ ys) = replies xs @ replies ys"
  by (induction xs rule: replies.induct) auto

lemma sleeps_append [simp]: "sleeps (xs @ ys) = sleeps xs @ sleeps ys"
  by (induction xs rule: sleeps.induct) auto

lemma fetch_trace:
  "fst (fetch parse conn) = [Connect] \<or>
   fst (fetch parse conn) = [Connect, Worksheet EXPECTED_SHEET_NAME] \<or>
   fst (fetch parse conn) = [Connect, Worksheet EXPECTED_SHEET_NAME, Sheet1] \<or>
   fst (fetch parse conn) = [Connect, Worksheet EXPECTED_SHEET_NAME, GetAllRecords] \<or>
   fst (fetch parse conn) = [Connect, Worksheet EXPECTED_SHEET_NAME, Sheet1, GetAllRecords]"
  by (auto simp: fetch_def sheet_to_dataframe_def split: sum.splits prod.splits)

lemma fetch_trace_facts:
  "replies (fst (fetch parse conn)) = [] \<and> sleeps (fst (fetch parse conn)) = [] \<and>
   distinct (fst (fetch parse conn)) \<and> count_list (fst (fetch parse conn)) Connect = 1"
  using fetch_trace [of parse conn] by auto

lemma analyze_portfolio_missing_column:
  assumes "rs \<noteq> []" and "column_union rs \<noteq> []"
    and "''qty'' \<notin> set (column_union rs) \<or> ''avg_price'' \<notin> set (column_union rs)"
  shows "fst (analyze_portfolio (normalize_rows parse rs)) =
     Inl (KeyError (if ''qty'' \<in> set (column_union rs) then ''avg_price'' else ''qty''))"
proof -
  let ?df = "normalize_rows parse rs"
  have "length (records ?df) = length rs" by simp
  with assms(1) have "records ?df \<noteq> []" by (metis length_0_conv)
  with assms(2) have ne: "\<not> empty ?df" by (simp add: empty_def)
  from assms(3) have "position_values ?df =
      Inl (KeyError (if ''qty'' \<in> set (column_union rs) then ''avg_price'' else ''qty''))"
    by (auto simp: position_values_def get_column_def)
  with ne show ?thesis by (simp add: analyze_portfolio_def)
qed

lemma sleeps_periodic_body: "sleeps (fst (periodic_body parse show conn)) = []"
  using fetch_trace_facts [of parse conn]
  by (cases "fetch parse conn") (auto simp: periodic_body_def split: sum.splits)

lemma periodic_cycle_facts:
  "snd (periodic_cycle parse show conn) = None \<and>
   sleeps (fst (periodic_cycle parse show conn)) = [1800]"
  using sleeps_periodic_body [of parse "show" conn]
  by (cases "periodic_body parse show conn")
     (auto simp: periodic_cycle_def split: option.splits)

lemma periodic_task_facts:
  "snd (periodic_task parse show conns n fuel) = None \<and>
   sleeps (fst (periodic_task parse show conns n fuel)) = replicate fuel 1800"
proof (induction fuel arbitrary: n)
  case 0
  then show ?case by simp
next
  case (Suc fuel)
  from periodic_cycle_facts [of parse "show" "conns n"] Suc [of "Suc n"]
  show ?case
    by (cases "periodic_cycle parse show (conns n)";
        cases "periodic_task parse show conns (Suc n) fuel") auto
qed

lemma periodic_task_Suc:
  "periodic_task parse show conns n (Suc fuel) =
     (fst (periodic_task parse show conns n fuel) @
      fst (periodic_cycle parse show (conns (n + fuel))), None)"
proof (induction fuel arbitrary: n)
  case 0
  from periodic_cycle_facts [of parse "show" "conns n"] show ?case
    by (cases "periodic_cycle parse show (conns n)") auto
next
  case (Suc fuel)
  from periodic_cycle_facts [of parse "show" "conns n"]
  obtain evs where c: "periodic_cycle parse show (conns n) = (evs, None)"
    by (cases "periodic_cycle parse show (conns n)") auto
  from periodic_task_facts [of parse "show" conns "Suc n" fuel]
  obtain evs' where t: "periodic_task parse show conns (Suc n) fuel = (evs', None)"
    by (cases "periodic_task parse show conns (Suc n) fuel") auto
  have 1: "periodic_task parse show conns n (Suc (Suc fuel)) =
      (evs @ fst (periodic_task parse show conns (Suc n) (Suc fuel)), None)"
    using c periodic_task_facts [of parse "show" conns "Suc n" "Suc fuel"]
    by (cases "periodic_task parse show conns (Suc n) (Suc fuel)") auto
  have 2: "fst (periodic_task parse show conns (Suc n) (Suc fuel)) =
      evs' @ fst (periodic_cycle parse show (conns (Suc n + fuel)))"
    using Suc [of "Suc n"] t by simp
  have 3: "fst (periodic_task parse show conns n (Suc fuel)) = evs @ evs'"
    using c t by simp
  show ?case by (simp add: 1 2 3 del: periodic_task.simps)
qed


lemma source_cases [case_names connect records no_sheet fallback]:
  obtains e where "conn = Inl e"
  | sh ws where "conn = Inr sh" and "worksheet sh EXPECTED_SHEET_NAME = Inr ws"
  | sh e1 e2 where "conn = Inr sh" and "worksheet sh EXPECTED_SHEET_NAME = Inl e1"
      and "sheet1 sh = Inl e2"
  | sh e1 ws where "conn = Inr sh" and "worksheet sh EXPECTED_SHEET_NAME = Inl e1"
      and "sheet1 sh = Inr ws"
proof (cases conn)
  case (Inl e)
  then show ?thesis using that(1) by blast
next
  case sh: (Inr sh)
  show ?thesis
  proof (cases "worksheet sh EXPECTED_SHEET_NAME")
    case (Inr ws)
    with sh show ?thesis using that(2) by blast
  next
    case e1: (Inl e1)
    show ?thesis
    proof (cases "sheet1 sh")
      case (Inl e2)
      with sh e1 show ?thesis using that(3) by blast
    next
      case (Inr ws)
      with sh e1 show ?thesis using that(4) by blast
    qed
  qed
qed

lemma source_fails_iff_fetch:
  "source_fails conn calls e \<longleftrightarrow> fetch parse conn = (calls, Inl e)"
proof (cases conn rule: source_cases)
  case (connect e)
  then show ?thesis by (auto simp: source_fails_def fetch_def)
next
  case (records sh ws)
  then show ?thesis
    by (cases ws) (auto simp: source_fails_def fetch_def sheet_to_dataframe_def)
next
  case (no_sheet sh e1 e2)
  then show ?thesis by (auto simp: source_fails_def fetch_def sheet_to_dataframe_def)
next
  case (fallback sh e1 ws)
  then show ?thesis
    by (cases ws) (auto simp: source_fails_def fetch_def sheet_to_dataframe_def)
qed

lemma source_delivers_fetch:
  "source_delivers conn calls rs \<Longrightarrow> fetch parse conn = (calls, Inr (normalize_rows parse rs))"
proof (cases conn rule: source_cases)
  case (connect e)
  then show "source_delivers conn calls rs \<Longrightarrow> ?thesis" by (simp add: source_delivers_def)
next
  case (records sh ws)
  then show "source_delivers conn calls rs \<Longrightarrow> ?thesis"
    by (simp add: source_delivers_def fetch_def sheet_to_dataframe_def)
next
  case (no_sheet sh e1 e2)
  then show "source_delivers conn calls rs \<Longrightarrow> ?thesis"
    by (simp add: source_delivers_def fetch_def sheet_to_dataframe_def)
next
  case (fallback sh e1 ws)
  then show "source_delivers conn calls rs \<Longrightarrow> ?thesis"
    by (simp add: source_delivers_def fetch_def sheet_to_dataframe_def)
qed

lemma source_fails_or_delivers:
  "(\<exists>calls e. source_fails conn calls e) \<or> (\<exists>calls rs. source_delivers conn calls rs)"
proof (cases conn rule: source_cases)
  case (connect e)
  then show ?thesis by (simp add: source_fails_def)
next
  case (records sh ws)
  then show ?thesis by (cases ws) (simp_all add: source_fails_def source_delivers_def)
next
  case (no_sheet sh e1 e2)
  then show ?thesis by (simp add: source_fails_def)
next
  case (fallback sh e1 ws)
  then show ?thesis by (cases ws) (simp_all add: source_fails_def source_delivers_def)
qed

lemma periodic_cycle_source_fails:
  "source_fails conn calls e \<Longrightarrow>
   periodic_cycle parse show conn =
     (calls @ [LogException msg_periodic_error e, Sleep 1800], None)"
  by (simp add: source_fails_iff_fetch [of conn calls e parse] periodic_cycle_def
      periodic_body_def)

lemma periodic_cycle_source_delivers:
  assumes "source_delivers conn calls rs"
  shows "periodic_cycle parse show conn =
     (case fst (analyze_portfolio (normalize_rows parse rs)) of
        Inl e \<Rightarrow> (calls @ [LogException msg_periodic_error e, Sleep 1800], None)
      | Inr s \<Rightarrow> (calls @ [LogInfo (msg_periodic_total @ show (total s)), Sleep 1800], None))"
  using source_delivers_fetch [OF assms, of parse]
  by (simp add: periodic_cycle_def periodic_body_def split: sum.splits)

lemmas source_defs = source_fails_def source_delivers_def sheet_of_def sheet_failing_def
  EXPECTED_SHEET_NAME_def


section \<open>The query handlers\<close>

text \<open>
  Claim C6. Whenever the source fails while the rows are acquired (\<^verbatim>\<open>connect_gsheet()\<close>
  raises; or the \<^verbatim>\<open>portfolio\<close> sheet opens and its \<^verbatim>\<open>get_all_records()\<close> raises; or no
  \<^verbatim>\<open>portfolio\<close> sheet opens and \<^verbatim>\<open>sheet1\<close>, or its \<^verbatim>\<open>get_all_records()\<close>, raises), each of the
  three handlers \<^verbatim>\<open>cmd_portfolio\<close>, \<^verbatim>\<open>cmd_analysis\<close> and \<^verbatim>\<open>cmd_rows\<close> makes the calls of that one
  attempt, sends one reply, the access-error text followed by \<^verbatim>\<open>str(e)\<close>, and returns: no
  exception leaves the handler and nothing follows the reply. The calls of the failed
  attempt are made once each, with a single \<^verbatim>\<open>connect_gsheet()\<close>: nothing is retried.
\<close>

theorem fetch_failure_is_reported:
  assumes "source_fails conn calls e"
  shows "cmd_portfolio parse show conn =
           (calls @ [LogException msg_read_error e, Answer (msg_access_error @ str_error e)],
            None) \<and>
         cmd_analysis parse show conn =
           (calls @ [Answer (msg_access_error @ str_error e)], None) \<and>
         cmd_rows parse show conn =
           (calls @ [Answer (msg_access_error @ str_error e)], None) \<and>
         replies calls = [] \<and> distinct calls \<and> count_list calls Connect = 1"
proof -
  have f: "fetch parse conn = (calls, Inl e)"
    using assms by (rule source_fails_iff_fetch [THEN iffD1])
  have "replies calls = [] \<and> distinct calls \<and> count_list calls Connect = 1"
    using fetch_trace_facts [of parse conn] f by simp
  with f show ?thesis
    by (simp add: cmd_portfolio_def cmd_analysis_def cmd_rows_def)
qed

theorem fetch_failure_is_reported_witness:
  "source_fails (Inl (SourceError ''boom'')) [Connect] (SourceError ''boom'') \<and>
   cmd_portfolio parse_digits show_whole (Inl (SourceError ''boom'')) =
     ([Connect, LogException msg_read_error (SourceError ''boom''),
       Answer (msg_access_error @ ''boom'')], None) \<and>
   cmd_analysis parse_digits show_whole (Inl (SourceError ''boom'')) =
     ([Connect, Answer (msg_access_error @ ''boom'')], None) \<and>
   source_fails sheet_failing [Connect, Worksheet ''portfolio'', Sheet1, GetAllRecords]
     (SourceError ''quota exceeded'') \<and>
   cmd_rows parse_digits show_whole sheet_failing =
     ([Connect, Worksheet ''portfolio'', Sheet1, GetAllRecords,
       Answer (msg_access_error @ ''quota exceeded'')], None)"
  using fetch_failure_is_reported
      [of "Inl (SourceError ''boom'')" "[Connect]" "SourceError ''boom''" parse_digits show_whole]
    fetch_failure_is_reported
      [of sheet_failing "[Connect, Worksheet ''portfolio'', Sheet1, GetAllRecords]"
          "SourceError ''quota exceeded''" parse_digits show_whole]
  by (simp add: source_fails_def sheet_failing_def EXPECTED_SHEET_NAME_def)

text \<open>
  Claim C10. In \<^verbatim>\<open>cmd_analysis\<close>, when the fetch succeeds with at least one row and at least
  one column but no row has the key \<^verbatim>\<open>qty\<close> (or none has \<^verbatim>\<open>avg_price\<close>),
  \<^verbatim>\<open>analyze_portfolio\<close> raises \<^verbatim>\<open>KeyError\<close> on the missing column outside the guarded block:
  the exception leaves the handler and no reply is sent.
\<close>

theorem analysis_missing_column_raises:
  assumes "snd (fetch parse conn) = Inr (normalize_rows parse rs)"
    and "rs \<noteq> []" and "column_union rs \<noteq> []"
    and "''qty'' \<notin> set (column_union rs) \<or> ''avg_price'' \<notin> set (column_union rs)"
  shows "cmd_analysis parse show conn =
           (fst (fetch parse conn),
            Some (KeyError (if ''qty'' \<in> set (column_union rs) then ''avg_price'' else ''qty''))) \<and>
         replies (fst (cmd_analysis parse show conn)) = []"
proof -
  have "cmd_analysis parse show conn =
      (fst (fetch parse conn),
       Some (KeyError (if ''qty'' \<in> set (column_union rs) then ''avg_price'' else ''qty'')))"
    using assms(1) analyze_portfolio_missing_column [OF assms(2-4), of parse]
    by (cases "fetch parse conn") (simp add: cmd_analysis_def)
  then show ?thesis
    using fetch_trace_facts [of parse conn] by simp
qed

theorem analysis_missing_column_raises_witness:
  "cmd_analysis parse_digits show_whole (sheet_of [row_no_qty]) =
     ([Connect, Worksheet ''portfolio'', GetAllRecords], Some (KeyError ''qty'')) \<and>
   replies (fst (cmd_analysis parse_digits show_whole (sheet_of [row_no_qty]))) = []"
  using analysis_missing_column_raises
      [of parse_digits "sheet_of [row_no_qty]" "[row_no_qty]" show_whole]
  by (simp add: fetch_def sheet_to_dataframe_def EXPECTED_SHEET_NAME_def sheet_of_def
      column_union_def add_key_def row_no_qty_def)


section \<open>The periodic refresh loop\<close>

text \<open>
  Claim C7. However many turns the loop is run for, from any turn on and whatever the
  source does, no exception leaves it, every turn ends with a wait of 1800 seconds (so
  \<open>fuel\<close> turns hold exactly \<open>fuel\<close> waits of 1800), and one more turn of fuel runs
  one more turn after the others: a failed turn does not end the loop. In a turn where
  the source fails, the calls made are followed by a log record of that exception and
  the wait. In a turn where the source delivers rows and \<^verbatim>\<open>analyze_portfolio\<close> raises on
  their frame, as it does with \<^verbatim>\<open>KeyError\<close> when the \<^verbatim>\<open>qty\<close> or \<^verbatim>\<open>avg_price\<close> column is missing,
  that exception is logged and the wait follows. In a turn where a summary is returned,
  its total is logged and the wait follows.
\<close>

theorem periodic_task_keeps_running:
  "snd (periodic_task parse show conns n fuel) = None \<and>
   sleeps (fst (periodic_task parse show conns n fuel)) = replicate fuel 1800 \<and>
   periodic_task parse show conns n (Suc fuel) =
     (fst (periodic_task parse show conns n fuel) @
      fst (periodic_cycle parse show (conns (n + fuel))), None) \<and>
   (source_fails conn calls e \<longrightarrow>
      periodic_cycle parse show conn =
        (calls @ [LogException msg_periodic_error e, Sleep 1800], None)) \<and>
   (source_delivers conn calls rs \<and>
    fst (analyze_portfolio (normalize_rows parse rs)) = Inl e \<longrightarrow>
      periodic_cycle parse show conn =
        (calls @ [LogException msg_periodic_error e, Sleep 1800], None)) \<and>
   (source_delivers conn calls rs \<and> rs \<noteq> [] \<and> column_union rs \<noteq> [] \<and>
    (''qty'' \<notin> set (column_union rs) \<or> ''avg_price'' \<notin> set (column_union rs)) \<longrightarrow>
      periodic_cycle parse show conn =
        (calls @
           [LogException msg_periodic_error
              (KeyError (if ''qty'' \<in> set (column_union rs) then ''avg_price'' else ''qty'')),
            Sleep 1800], None)) \<and>
   (source_delivers conn calls rs \<and>
    fst (analyze_portfolio (normalize_rows parse rs)) = Inr s \<longrightarrow>
      periodic_cycle parse show conn =
        (calls @ [LogInfo (msg_periodic_total @ show (total s)), Sleep 1800], None))"
proof -
  have "periodic_cycle parse show conn =
      (calls @
         [LogException msg_periodic_error
            (KeyError (if ''qty'' \<in> set (column_union rs) then ''avg_price'' else ''qty'')),
          Sleep 1800], None)"
    if "source_delivers conn calls rs" and "rs \<noteq> []" and "column_union rs \<noteq> []"
      and "''qty'' \<notin> set (column_union rs) \<or> ''avg_price'' \<notin> set (column_union rs)"
    using periodic_cycle_source_delivers [OF that(1), of parse "show"]
      analyze_portfolio_missing_column [OF that(2-4), of parse]
    by simp
  then show ?thesis
    using periodic_task_facts [of parse "show" conns n fuel]
      periodic_task_Suc [of parse "show" conns n fuel]
      periodic_cycle_source_fails [of conn calls e parse "show"]
      periodic_cycle_source_delivers [of conn calls rs parse "show"]
    by simp
qed

theorem periodic_task_keeps_running_witness:
  "periodic_task parse_digits show_float (\<lambda>k. Inl (SourceError ''down'')) 0 2 =
     ([Connect, LogException msg_periodic_error (SourceError ''down''), Sleep 1800,
       Connect, LogException msg_periodic_error (SourceError ''down''), Sleep 1800], None) \<and>
   source_delivers (sheet_of [row_no_account]) [Connect, Worksheet ''portfolio'', GetAllRecords]
     [row_no_account] \<and>
   fst (analyze_portfolio (normalize_rows parse_digits [row_no_account])) =
     Inl (KeyError ''account'') \<and>
   periodic_cycle parse_digits show_float (sheet_of [row_no_account]) =
     ([Connect, Worksheet ''portfolio'', GetAllRecords,
       LogException msg_periodic_error (KeyError ''account''), Sleep 1800], None) \<and>
   periodic_cycle parse_digits show_float (sheet_of [row_no_qty]) =
     ([Connect, Worksheet ''portfolio'', GetAllRecords,
       LogException msg_periodic_error (KeyError ''qty''), Sleep 1800], None) \<and>
   periodic_cycle parse_digits show_float (sheet_of [row_A]) =
     ([Connect, Worksheet ''portfolio'', GetAllRecords,
       LogInfo (msg_periodic_total @ ''50.0''), Sleep 1800], None)"
  using periodic_task_keeps_running
      [of parse_digits show_float "\<lambda>k. Inl (SourceError ''down'')" 0 1
          "Inl (SourceError ''down'')" "[Connect]" "SourceError ''down''"]
    periodic_task_keeps_running
      [of parse_digits show_float "\<lambda>k. Inl (SourceError ''down'')" 0 1
          "sheet_of [row_no_account]" "[Connect, Worksheet ''portfolio'', GetAllRecords]"
          "KeyError ''account''" "[row_no_account]"]
    periodic_task_keeps_running
      [of parse_digits show_float "\<lambda>k. Inl (SourceError ''down'')" 0 1
          "sheet_of [row_no_qty]" "[Connect, Worksheet ''portfolio'', GetAllRecords]"
          "KeyError ''qty''" "[row_no_qty]"]
    periodic_task_keeps_running
      [of parse_digits show_float "\<lambda>k. Inl (SourceError ''down'')" 0 1
          "sheet_of [row_A]" "[Connect, Worksheet ''portfolio'', GetAllRecords]"
          "KeyError ''qty''" "[row_A]"
          "\<lparr>total = 50, by_account = [(Str ''A'', 50)],
            by_account_pct = Some [(Str ''A'', 100)],
            by_type = [(Str ''stock'', 50)], by_type_pct = Some [(Str ''stock'', 100)],
            rows = [row_A @ [(''value'', Num 50)]]\<rparr>"]
  by (simp add: numeral_2_eq_2 periodic_cycle_def periodic_body_def fetch_def
      sheet_to_dataframe_def digits.simps digit_char_def frame_defs
      analysis_defs source_defs row_A_def row_no_qty_def row_no_account_def show_float_def)

section \<open>Reply formatting\<close>

text \<open>
  Claim C9, the code at a portfolio worth 1500. The value of the record is printed with
  two decimals and the thousands separator, \<^verbatim>\<open>1,500.00\<close>; the grand total of the same
  reply is printed by \<^verbatim>\<open>{:.2f}\<close>, without the separator: \<^verbatim>\<open>1500.00\<close>.
\<close>

theorem portfolio_total_has_no_separator:
  "cmd_portfolio parse show (sheet_of rows_1500) =
     ([Connect, Worksheet ''portfolio'', GetAllRecords,
       Answer (join_lines
         [msg_portfolio_header,
          ''X'' @ txt_qty @ show 300 @ txt_price @ show 5 @ txt_value @ ''1,500.00'' @ txt_rub,
          msg_portfolio_total @ ''1500.00'' @ txt_rub])], None)"
  by (simp add: cmd_portfolio_def handler_defs frame_defs sheet_of_def rows_1500_def)
end
